theory Spec2Isabelle
  imports Main
begin

section \<open>Data model of the marketplace client (src/lib/api.ts)\<close>

text \<open>
  The client talks to a hosted relational store through query calls. The store's tables
  are modelled as lists of rows, in insertion order. Identifiers and timestamps are
  generated by the store; wherever the source receives such a value from the store it is
  an argument of the model. Monetary amounts are JavaScript numbers in the source; here
  they are exact integers (minor units), and a SQL null (or a value \<open>Number\<close> maps to
  NaN) is \<open>None\<close>. The client functions modelled here copy and coerce amounts
  (\<open>Number(x) || 0\<close>) and never add them.
\<close>

type_synonym uuid = string
type_synonym timestamp = nat

text \<open>\<open>new Date(s)\<close>: an invalid date when the argument is the empty string.\<close>

datatype date = InvalidDate | Date timestamp

datatype role = Admin | Founder | Talent
datatype user_status = UserActive | UserPending | UserSuspended
datatype campaign_status = Draft | Active | Paused | CampaignCompleted | CampaignRejected
datatype application_status = Pending | Approved | Rejected
datatype order_status = PendingShipment | Shipped | Delivered | ReviewSubmitted | Completed
datatype transaction_type = Credit | Debit
datatype earning_status = EarningPending | Paid | Cancelled
datatype media_type = Image | Video

record media_item =
  m_url :: string
  m_type :: media_type

text \<open>
  The \<open>review_media\<close> column holds JSON: null, an array of media items, or some other
  JSON value (\<open>JOther truthy\<close>, with its JavaScript truthiness).
\<close>

datatype review_media_json = JNull | JArray "media_item list" | JOther bool

text \<open>
  The \<open>social_media\<close> column holds JSON that the client passes on as it is: the
  serialised value, with its JavaScript truthiness.
\<close>

datatype social_json = SocialJson bool string

subsection \<open>Rows of the store\<close>

record profile_row =
  p_id :: uuid
  p_email :: string
  p_name :: string
  p_phone :: "string option"
  p_address :: "string option"
  p_role :: role
  p_status :: user_status
  p_avatar_url :: "string option"
  p_created_at :: "timestamp option"
  p_company :: "string option"
  p_wallet_balance :: "int option"
  p_bio :: "string option"
  p_portfolio :: "string list option"
  p_rate_level :: "nat option"
  p_skills :: "string list option"
  p_social_media :: "social_json option"
  p_total_earnings :: "int option"

record campaign_row =
  c_id :: uuid
  c_founder_id :: uuid
  c_title :: string
  c_description :: string
  c_product_name :: string
  c_category :: string
  c_duration :: string
  c_product_images :: "string list option"
  c_rate_level :: nat
  c_media_type :: string
  c_budget :: "int option"
  c_price :: "int option"
  c_status :: campaign_status
  c_created_at :: "timestamp option"
  c_deadline :: "timestamp option"

record application_row =
  a_id :: uuid
  a_campaign_id :: uuid
  a_talent_id :: uuid
  a_status :: application_status

record order_row =
  o_id :: uuid
  o_campaign_id :: uuid
  o_talent_id :: uuid
  o_founder_id :: uuid
  o_status :: order_status
  o_payout :: "int option"
  o_created_at :: "timestamp option"
  o_updated_at :: "timestamp option"
  o_delivery_address :: "string option"
  o_tracking_number :: "string option"
  o_courier :: "string option"
  o_review_media :: review_media_json
  o_review_submitted_at :: "timestamp option"

record transaction_row =
  t_id :: uuid
  t_user_id :: uuid
  t_type :: transaction_type
  t_amount :: "int option"
  t_description :: string
  t_related_order_id :: "uuid option"
  t_created_at :: "timestamp option"

record earning_row =
  e_id :: uuid
  e_talent_id :: uuid
  e_order_id :: uuid
  e_campaign_title :: string
  e_amount :: "int option"
  e_status :: earning_status
  e_earned_at :: "timestamp option"
  e_paid_at :: "timestamp option"

subsection \<open>Application-level types (src/types, as the converters build them)\<close>

record base_user =
  u_id :: uuid
  u_email :: string
  u_name :: string
  u_phone :: "string option"
  u_address :: "string option"
  u_role :: role
  u_status :: user_status
  u_avatar :: "string option"
  u_createdAt :: date

record founder_fields =
  f_company :: "string option"
  f_walletBalance :: int

record talent_fields =
  tl_bio :: "string option"
  tl_portfolio :: "string list"
  tl_rateLevel :: nat
  tl_skills :: "string list"
  tl_socialMedia :: social_json
  tl_totalEarnings :: int

datatype app_user =
    PlainUser base_user
  | FounderUser base_user founder_fields
  | TalentUser base_user talent_fields

record app_campaign =
  ac_id :: uuid
  ac_founderId :: uuid
  ac_title :: string
  ac_description :: string
  ac_productName :: string
  ac_category :: string
  ac_duration :: string
  ac_productImages :: "string list"
  ac_rateLevel :: nat
  ac_mediaType :: string
  ac_budget :: int
  ac_price :: int
  ac_status :: campaign_status
  ac_applicants :: "uuid list"
  ac_approvedTalents :: "uuid list"
  ac_createdAt :: date
  ac_deadline :: "date option"

record delivery_info =
  d_address :: string
  d_trackingNumber :: "string option"
  d_courier :: "string option"

record review_submission =
  rs_media :: "media_item list"
  rs_submittedAt :: date

record app_order =
  ao_id :: uuid
  ao_campaignId :: uuid
  ao_talentId :: uuid
  ao_founderId :: uuid
  ao_talentName :: string
  ao_campaignTitle :: string
  ao_productName :: string
  ao_status :: order_status
  ao_payout :: int
  ao_createdAt :: date
  ao_updatedAt :: "date option"
  ao_deliveryInfo :: "delivery_info option"
  ao_reviewSubmission :: "review_submission option"

record app_transaction =
  at_id :: uuid
  at_userId :: uuid
  at_type :: transaction_type
  at_amount :: int
  at_description :: string
  at_relatedJobId :: "uuid option"
  at_createdAt :: date

record app_earning =
  ae_id :: uuid
  ae_talentId :: uuid
  ae_orderId :: uuid
  ae_campaignTitle :: string
  ae_amount :: int
  ae_status :: earning_status
  ae_earnedAt :: date
  ae_paidAt :: "date option"

record app_message =
  am_id :: uuid
  am_jobId :: uuid
  am_senderId :: uuid
  am_content :: string
  am_timestamp :: date
  am_read :: bool

subsection \<open>JavaScript coercions used by the converters\<close>

text \<open>\<open>Number(x) || 0\<close>: null and NaN become 0.\<close>

definition number_or_zero :: "int option \<Rightarrow> int" where
  "number_or_zero x = (case x of None \<Rightarrow> 0 | Some v \<Rightarrow> v)"

text \<open>\<open>s || undefined\<close> on a nullable string: null and the empty string become undefined.\<close>

definition or_undefined :: "string option \<Rightarrow> string option" where
  "or_undefined s = (case s of None \<Rightarrow> None | Some v \<Rightarrow> if v = [] then None else Some v)"

text \<open>\<open>xs || []\<close> on a nullable array (an array, even an empty one, is truthy).\<close>

definition or_empty :: "'a list option \<Rightarrow> 'a list" where
  "or_empty xs = (case xs of None \<Rightarrow> [] | Some v \<Rightarrow> v)"

text \<open>\<open>social_media || {}\<close>: null and every falsy value become the empty object.\<close>

definition social_or_empty :: "social_json option \<Rightarrow> social_json" where
  "social_or_empty j =
     (case j of
        None \<Rightarrow> SocialJson True ''{}''
      | Some (SocialJson is_truthy body) \<Rightarrow>
          if is_truthy then SocialJson is_truthy body else SocialJson True ''{}'')"

text \<open>\<open>new Date(ts || '')\<close> on a nullable timestamp.\<close>

definition new_Date :: "timestamp option \<Rightarrow> date" where
  "new_Date ts = (case ts of None \<Rightarrow> InvalidDate | Some t \<Rightarrow> Date t)"

text \<open>\<open>ts ? new Date(ts) : undefined\<close>.\<close>

definition date_if_present :: "timestamp option \<Rightarrow> date option" where
  "date_if_present ts = map_option Date ts"

subsection \<open>Converters\<close>

definition baseUser :: "profile_row \<Rightarrow> base_user" where
  "baseUser profile =
     \<lparr> u_id = p_id profile,
       u_email = p_email profile,
       u_name = p_name profile,
       u_phone = or_undefined (p_phone profile),
       u_address = or_undefined (p_address profile),
       u_role = p_role profile,
       u_status = p_status profile,
       u_avatar = or_undefined (p_avatar_url profile),
       u_createdAt = new_Date (p_created_at profile) \<rparr>"

definition convertProfileToUser :: "profile_row \<Rightarrow> app_user" where
  "convertProfileToUser profile =
     (if p_role profile = Founder then
        FounderUser ((baseUser profile)\<lparr> u_role := Founder,
                        u_phone := or_undefined (p_phone profile),
                        u_address := or_undefined (p_address profile) \<rparr>)
          \<lparr> f_company = or_undefined (p_company profile),
            f_walletBalance = number_or_zero (p_wallet_balance profile) \<rparr>
      else if p_role profile = Talent then
        TalentUser ((baseUser profile)\<lparr> u_role := Talent \<rparr>)
          \<lparr> tl_bio = or_undefined (p_bio profile),
            tl_portfolio = or_empty (p_portfolio profile),
            tl_rateLevel = (case p_rate_level profile of None \<Rightarrow> 1
                            | Some r \<Rightarrow> if r = 0 then 1 else r),
            tl_skills = or_empty (p_skills profile),
            tl_socialMedia = social_or_empty (p_social_media profile),
            tl_totalEarnings = number_or_zero (p_total_earnings profile) \<rparr>
      else PlainUser (baseUser profile))"

definition convertCampaignToApp :: "campaign_row \<Rightarrow> uuid list \<Rightarrow> uuid list \<Rightarrow> app_campaign" where
  "convertCampaignToApp campaign applicants approvedTalents =
     \<lparr> ac_id = c_id campaign,
       ac_founderId = c_founder_id campaign,
       ac_title = c_title campaign,
       ac_description = c_description campaign,
       ac_productName = c_product_name campaign,
       ac_category = c_category campaign,
       ac_duration = c_duration campaign,
       ac_productImages = or_empty (c_product_images campaign),
       ac_rateLevel = c_rate_level campaign,
       ac_mediaType = c_media_type campaign,
       ac_budget = number_or_zero (c_budget campaign),
       ac_price = number_or_zero (c_price campaign),
       ac_status = c_status campaign,
       ac_applicants = applicants,
       ac_approvedTalents = approvedTalents,
       ac_createdAt = new_Date (c_created_at campaign),
       ac_deadline = date_if_present (c_deadline campaign) \<rparr>"

text \<open>
  \<open>convertOrderToApp\<close>. The current time \<open>now\<close> is what \<open>new Date()\<close> returns; it
  stands in for a missing \<open>review_submitted_at\<close>.
\<close>

definition convertOrderToApp ::
  "timestamp \<Rightarrow> order_row \<Rightarrow> string \<Rightarrow> string \<Rightarrow> string \<Rightarrow> app_order" where
  "convertOrderToApp now order1 campaignTitle talentName productName =
     \<lparr> ao_id = o_id order1,
       ao_campaignId = o_campaign_id order1,
       ao_talentId = o_talent_id order1,
       ao_founderId = o_founder_id order1,
       ao_talentName = talentName,
       ao_campaignTitle = campaignTitle,
       ao_productName = productName,
       ao_status = o_status order1,
       ao_payout = number_or_zero (o_payout order1),
       ao_createdAt = new_Date (o_created_at order1),
       ao_updatedAt = date_if_present (o_updated_at order1),
       ao_deliveryInfo =
         (case or_undefined (o_delivery_address order1) of
            None \<Rightarrow> None
          | Some addr \<Rightarrow>
              Some \<lparr> d_address = addr,
                     d_trackingNumber = or_undefined (o_tracking_number order1),
                     d_courier = or_undefined (o_courier order1) \<rparr>),
       ao_reviewSubmission =
         (case o_review_media order1 of
            JArray items \<Rightarrow>
              if length items > 0 then
                Some \<lparr> rs_media = map (\<lambda>item. \<lparr> m_url = m_url item, m_type = m_type item \<rparr>) items,
                       rs_submittedAt =
                         (case o_review_submitted_at order1 of
                            Some t \<Rightarrow> Date t | None \<Rightarrow> Date now) \<rparr>
              else None
          | _ \<Rightarrow> None) \<rparr>"

text \<open>The row conversions inside \<open>getTransactions\<close> and \<open>getEarnings\<close>.\<close>

definition convertTransaction :: "transaction_row \<Rightarrow> app_transaction" where
  "convertTransaction tr =
     \<lparr> at_id = t_id tr,
       at_userId = t_user_id tr,
       at_type = t_type tr,
       at_amount = number_or_zero (t_amount tr),
       at_description = t_description tr,
       at_relatedJobId = or_undefined (t_related_order_id tr),
       at_createdAt = new_Date (t_created_at tr) \<rparr>"

definition convertEarning :: "earning_row \<Rightarrow> app_earning" where
  "convertEarning er =
     \<lparr> ae_id = e_id er,
       ae_talentId = e_talent_id er,
       ae_orderId = e_order_id er,
       ae_campaignTitle = e_campaign_title er,
       ae_amount = number_or_zero (e_amount er),
       ae_status = e_status er,
       ae_earnedAt = new_Date (e_earned_at er),
       ae_paidAt = date_if_present (e_paid_at er) \<rparr>"

section \<open>The store and the errors the client throws\<close>

text \<open>
  The tables the client reads and writes, and the paths held by the
  \<open>review-submissions\<close> storage bucket.
\<close>

record store =
  db_profiles :: "profile_row list"
  db_campaigns :: "campaign_row list"
  db_campaign_applications :: "application_row list"
  db_orders :: "order_row list"
  db_transactions :: "transaction_row list"
  db_earnings :: "earning_row list"
  db_review_submissions :: "string list"

text \<open>
  A store call answers with data or with an error object. Whether the store accepts a
  write (constraints, connectivity) is decided outside the client, so each call's error
  is an argument of the model: \<open>None\<close> (or \<open>Inr\<close>) when the store reports none. A call
  that reports an error leaves the tables as they were.
\<close>

datatype store_error = StoreError string

fun se_message :: "store_error \<Rightarrow> string" where
  "se_message (StoreError m) = m"

text \<open>
  What a function of the client throws: a JavaScript \<open>Error\<close>, \<open>TypeError\<close> or
  \<open>RangeError\<close> with its message, or the store's error object rethrown as it is
  (\<open>if (error) throw error\<close>).
\<close>

datatype exn = Error string | TypeError string | RangeError string | Thrown store_error

text \<open>
  \<open>.single()\<close> asks for exactly one row: with none or several the store answers with
  this error, and a write in the same request is rolled back.
\<close>

definition single_row_error :: store_error where
  "single_row_error = StoreError ''JSON object requested, multiple (or no) rows returned''"

text \<open>What the store generates for an inserted row: its id and its creation time.\<close>

record inserted =
  ins_id :: uuid
  ins_at :: "timestamp option"

text \<open>
  The resource embeddings of the order queries:
  \<open>campaigns!inner(title, product_name)\<close> (an inner join: an order without its campaign
  is not returned) and \<open>profiles!orders_talent_id_fkey(name)\<close> (null without the profile).
\<close>

definition embed_campaign :: "store \<Rightarrow> order_row \<Rightarrow> campaign_row option" where
  "embed_campaign db row = find (\<lambda>c. c_id c = o_campaign_id row) (db_campaigns db)"

definition embed_profile :: "store \<Rightarrow> order_row \<Rightarrow> profile_row option" where
  "embed_profile db row = find (\<lambda>p. p_id p = o_talent_id row) (db_profiles db)"

definition with_campaign :: "store \<Rightarrow> order_row list \<Rightarrow> (order_row \<times> campaign_row) list" where
  "with_campaign db rows = List.map_filter (\<lambda>r. map_option (Pair r) (embed_campaign db r)) rows"

text \<open>Reading \<open>.name\<close> of the null embedding throws.\<close>

definition null_property_message :: string where
  "null_property_message = ''Cannot read properties of null (reading name)''"

definition convert_embedded ::
  "timestamp \<Rightarrow> store \<Rightarrow> order_row \<Rightarrow> campaign_row \<Rightarrow> exn + app_order" where
  "convert_embedded now db data campaign =
     (case embed_profile db data of
        None \<Rightarrow> Inl (TypeError null_property_message)
      | Some profile \<Rightarrow>
          Inr (convertOrderToApp now data (c_title campaign) (p_name profile)
                 (c_product_name campaign)))"

section \<open>Campaign applications\<close>

text \<open>
  \<open>applyCampaign\<close>. The error of the first query is not read: on an error its data is
  null and the insert is attempted.
\<close>

definition applyCampaign ::
  "store \<Rightarrow> uuid \<Rightarrow> uuid \<Rightarrow> store_error option \<Rightarrow> store_error + uuid
     \<Rightarrow> (exn + application_row) \<times> store" where
  "applyCampaign db campaignId talentId select_error insert_reply =
     (let existingApplications =
            (case select_error of
               Some _ \<Rightarrow> None
             | None \<Rightarrow>
                 Some (filter (\<lambda>a. a_campaign_id a = campaignId \<and> a_talent_id a = talentId)
                         (db_campaign_applications db)))
      in if (case existingApplications of None \<Rightarrow> False | Some rows \<Rightarrow> length rows > 0)
         then (Inl (Error ''You have already applied to this campaign.''), db)
         else
           (case insert_reply of
              Inl error \<Rightarrow> (Inl (Thrown error), db)
            | Inr new_id \<Rightarrow>
                let data = \<lparr> a_id = new_id, a_campaign_id = campaignId,
                              a_talent_id = talentId, a_status = Pending \<rparr>
                in (Inr data,
                    db\<lparr> db_campaign_applications := db_campaign_applications db @ [data] \<rparr>)))"

text \<open>The status argument of \<open>updateApplicationStatus\<close>: \<open>'approved' | 'rejected'\<close>.\<close>

datatype decision = ToApproved | ToRejected

fun decided :: "decision \<Rightarrow> application_status" where
  "decided ToApproved = Approved"
| "decided ToRejected = Rejected"

definition updateApplicationStatus ::
  "store \<Rightarrow> uuid \<Rightarrow> uuid \<Rightarrow> decision \<Rightarrow> store_error option
     \<Rightarrow> (exn + application_row) \<times> store" where
  "updateApplicationStatus db campaignId talentId status error =
     (case error of
        Some e \<Rightarrow> (Inl (Thrown e), db)
      | None \<Rightarrow>
          let hit = (\<lambda>a. a_campaign_id a = campaignId \<and> a_talent_id a = talentId);
              change = (\<lambda>a. a\<lparr> a_status := decided status \<rparr>)
          in (case map change (filter hit (db_campaign_applications db)) of
                [data] \<Rightarrow>
                  (Inr data,
                   db\<lparr> db_campaign_applications :=
                          map (\<lambda>a. if hit a then change a else a)
                            (db_campaign_applications db) \<rparr>)
              | _ \<Rightarrow> (Inl (Thrown single_row_error), db)))"

section \<open>Orders\<close>

text \<open>The argument of \<open>createOrder\<close>: an Order without the fields \<open>Omit\<close> removes.\<close>

record order_data =
  od_campaignId :: uuid
  od_talentId :: uuid
  od_founderId :: uuid
  od_status :: order_status
  od_payout :: int
  od_updatedAt :: "date option"
  od_deliveryInfo :: "delivery_info option"
  od_reviewSubmission :: "review_submission option"

text \<open>
  \<open>createOrder\<close> inserts the eight columns it names; the store generates the id and the
  creation time, and the columns not named are null.
\<close>

definition createOrder ::
  "store \<Rightarrow> order_data \<Rightarrow> timestamp \<Rightarrow> store_error + inserted
     \<Rightarrow> (exn + app_order) \<times> store" where
  "createOrder db orderData now insert_reply =
     (case insert_reply of
        Inl error \<Rightarrow> (Inl (Thrown error), db)
      | Inr ins \<Rightarrow>
          let row =
                \<lparr> o_id = ins_id ins,
                  o_campaign_id = od_campaignId orderData,
                  o_talent_id = od_talentId orderData,
                  o_founder_id = od_founderId orderData,
                  o_status = od_status orderData,
                  o_payout = Some (od_payout orderData),
                  o_created_at = ins_at ins,
                  o_updated_at = None,
                  o_delivery_address = map_option d_address (od_deliveryInfo orderData),
                  o_tracking_number =
                    Option.bind (od_deliveryInfo orderData) d_trackingNumber,
                  o_courier = Option.bind (od_deliveryInfo orderData) d_courier,
                  o_review_media = JNull,
                  o_review_submitted_at = None \<rparr>
          in (case with_campaign db [row] of
                [(data, campaign)] \<Rightarrow>
                  (convert_embedded now db data campaign,
                   db\<lparr> db_orders := db_orders db @ [row] \<rparr>)
              | _ \<Rightarrow> (Inl (Thrown single_row_error), db)))"

text \<open>
  The argument of \<open>updateOrder\<close>, \<open>Partial<OrderRow>\<close>: every column may be absent
  (\<open>None\<close>); a nullable column that is present may be null.
\<close>

record order_updates =
  up_id :: "uuid option"
  up_campaign_id :: "uuid option"
  up_talent_id :: "uuid option"
  up_founder_id :: "uuid option"
  up_status :: "order_status option"
  up_payout :: "int option option"
  up_created_at :: "timestamp option option"
  up_updated_at :: "timestamp option option"
  up_delivery_address :: "string option option"
  up_tracking_number :: "string option option"
  up_courier :: "string option option"
  up_review_media :: "review_media_json option"
  up_review_submitted_at :: "timestamp option option"

definition patch :: "'a option \<Rightarrow> 'a \<Rightarrow> 'a" where
  "patch u old = (case u of None \<Rightarrow> old | Some v \<Rightarrow> v)"

fun truthy :: "review_media_json \<Rightarrow> bool" where
  "truthy JNull = False"
| "truthy (JArray items) = True"
| "truthy (JOther b) = b"

text \<open>
  The object \<open>updateOrder\<close> sends: the updates, then \<open>review_media\<close> replaced by
  undefined (so the column is left alone) unless it is truthy, then \<open>updated_at\<close> set
  to the current time.
\<close>

definition apply_updates :: "order_updates \<Rightarrow> timestamp \<Rightarrow> order_row \<Rightarrow> order_row" where
  "apply_updates updates now row =
     \<lparr> o_id = patch (up_id updates) (o_id row),
       o_campaign_id = patch (up_campaign_id updates) (o_campaign_id row),
       o_talent_id = patch (up_talent_id updates) (o_talent_id row),
       o_founder_id = patch (up_founder_id updates) (o_founder_id row),
       o_status = patch (up_status updates) (o_status row),
       o_payout = patch (up_payout updates) (o_payout row),
       o_created_at = patch (up_created_at updates) (o_created_at row),
       o_updated_at = Some now,
       o_delivery_address = patch (up_delivery_address updates) (o_delivery_address row),
       o_tracking_number = patch (up_tracking_number updates) (o_tracking_number row),
       o_courier = patch (up_courier updates) (o_courier row),
       o_review_media =
         (case up_review_media updates of
            Some m \<Rightarrow> if truthy m then m else o_review_media row
          | None \<Rightarrow> o_review_media row),
       o_review_submitted_at =
         patch (up_review_submitted_at updates) (o_review_submitted_at row) \<rparr>"

text \<open>
  \<open>updateOrder\<close> reads the clock twice: \<open>sent_at\<close> when it builds the request
  (the new \<open>updated_at\<close>), and \<open>now\<close> when it converts the row the store returned.
\<close>

definition updateOrder ::
  "store \<Rightarrow> uuid \<Rightarrow> order_updates \<Rightarrow> timestamp \<Rightarrow> timestamp \<Rightarrow> store_error option
     \<Rightarrow> (exn + app_order) \<times> store" where
  "updateOrder db orderId updates sent_at now error =
     (case error of
        Some e \<Rightarrow> (Inl (Thrown e), db)
      | None \<Rightarrow>
          let hit = (\<lambda>r. o_id r = orderId);
              change = apply_updates updates sent_at
          in (case with_campaign db (map change (filter hit (db_orders db))) of
                [(data, campaign)] \<Rightarrow>
                  (convert_embedded now db data campaign,
                   db\<lparr> db_orders := map (\<lambda>r. if hit r then change r else r) (db_orders db) \<rparr>)
              | _ \<Rightarrow> (Inl (Thrown single_row_error), db)))"

section \<open>Transactions and earnings\<close>

record transaction_data =
  td_userId :: uuid
  td_type :: transaction_type
  td_amount :: int
  td_description :: string
  td_relatedJobId :: "uuid option"

text \<open>
  \<open>createTransaction\<close> returns the stored row converted, or, when the store returns no
  representation of it, its own argument.
\<close>

datatype created_transaction = Stored app_transaction | Echoed transaction_data

text \<open>
  The reply to the insert: an error, or the generated values and whether the inserted
  row came back (\<open>data && data.length > 0\<close>).
\<close>

definition createTransaction ::
  "store \<Rightarrow> transaction_data \<Rightarrow> store_error + inserted \<times> bool
     \<Rightarrow> (exn + created_transaction) \<times> store" where
  "createTransaction db transactionData insert_reply =
     (case insert_reply of
        Inl error \<Rightarrow> (Inl (Thrown error), db)
      | Inr (ins, returned) \<Rightarrow>
          let row =
                \<lparr> t_id = ins_id ins,
                  t_user_id = td_userId transactionData,
                  t_type = td_type transactionData,
                  t_amount = Some (td_amount transactionData),
                  t_description = td_description transactionData,
                  t_related_order_id = td_relatedJobId transactionData,
                  t_created_at = ins_at ins \<rparr>
          in (Inr (if returned then Stored (convertTransaction row)
                   else Echoed transactionData),
              db\<lparr> db_transactions := db_transactions db @ [row] \<rparr>))"

record earning_data =
  ed_talentId :: uuid
  ed_orderId :: uuid
  ed_campaignTitle :: string
  ed_amount :: int
  ed_status :: earning_status
  ed_paidAt :: "date option"

text \<open>\<open>paidAt?.toISOString()\<close>: undefined stays undefined, an invalid date throws.\<close>

definition toISOString :: "date option \<Rightarrow> exn + timestamp option" where
  "toISOString d =
     (case d of
        None \<Rightarrow> Inr None
      | Some InvalidDate \<Rightarrow> Inl (RangeError ''Invalid time value'')
      | Some (Date t) \<Rightarrow> Inr (Some t))"

definition createEarning ::
  "store \<Rightarrow> earning_data \<Rightarrow> store_error + inserted \<Rightarrow> (exn + app_earning) \<times> store" where
  "createEarning db earningData insert_reply =
     (case toISOString (ed_paidAt earningData) of
        Inl e \<Rightarrow> (Inl e, db)
      | Inr paid_at \<Rightarrow>
          (case insert_reply of
             Inl error \<Rightarrow> (Inl (Thrown error), db)
           | Inr ins \<Rightarrow>
               let data =
                     \<lparr> e_id = ins_id ins,
                       e_talent_id = ed_talentId earningData,
                       e_order_id = ed_orderId earningData,
                       e_campaign_title = ed_campaignTitle earningData,
                       e_amount = Some (ed_amount earningData),
                       e_status = ed_status earningData,
                       e_earned_at = ins_at ins,
                       e_paid_at = paid_at \<rparr>
               in (Inr (convertEarning data),
                   db\<lparr> db_earnings := db_earnings db @ [data] \<rparr>)))"

section \<open>Deleting a review attachment\<close>

text \<open>\<open>String.prototype.split\<close> on one separator character, and \<open>Array.prototype.join\<close>.\<close>

fun split_on :: "char \<Rightarrow> string \<Rightarrow> string list" where
  "split_on sep [] = [[]]"
| "split_on sep (x # xs) =
     (if x = sep then [] # split_on sep xs
      else (case split_on sep xs of
              [] \<Rightarrow> [[x]]
            | part # parts \<Rightarrow> (x # part) # parts))"

fun join_with :: "string \<Rightarrow> string list \<Rightarrow> string" where
  "join_with sep [] = []"
| "join_with sep [part] = part"
| "join_with sep (part # parts) = part @ sep @ join_with sep parts"

text \<open>\<open>Array.prototype.findIndex\<close>; \<open>None\<close> is the source's -1.\<close>

fun findIndex :: "('a \<Rightarrow> bool) \<Rightarrow> 'a list \<Rightarrow> nat option" where
  "findIndex P [] = None"
| "findIndex P (x # xs) = (if P x then Some 0 else map_option Suc (findIndex P xs))"

text \<open>The requests \<open>deleteReviewMedia\<close> sends, in the order it sends them.\<close>

datatype store_call =
    StorageRemove string
  | SelectReviewMedia uuid
  | UpdateReviewMedia uuid review_media_json

text \<open>\<open>err.message || err\<close>, appended to a string.\<close>

fun message_or_err :: "exn \<Rightarrow> string" where
  "message_or_err (Error m) = (if m = [] then ''Error'' else m)"
| "message_or_err (TypeError m) = (if m = [] then ''TypeError'' else m)"
| "message_or_err (RangeError m) = (if m = [] then ''RangeError'' else m)"
| "message_or_err (Thrown e) = (if se_message e = [] then ''[object Object]'' else se_message e)"

text \<open>Calling \<open>.filter\<close> on a truthy JSON value that is not an array throws.\<close>

definition not_a_function_message :: string where
  "not_a_function_message = ''(intermediate value).filter is not a function''"

text \<open>
  \<open>updatedMedia\<close>: the stored media (\<open>review_media || []\<close>) without the items of
  the deleted URL; and the value written back, null when no item is left
  (\<open>updatedMedia.length > 0 ? updatedMedia : null\<close>).
\<close>

definition updatedMedia :: "string \<Rightarrow> review_media_json \<Rightarrow> media_item list" where
  "updatedMedia mediaUrl stored =
     filter (\<lambda>m. m_url m \<noteq> mediaUrl) (case stored of JArray items \<Rightarrow> items | _ \<Rightarrow> [])"

definition written_media :: "string \<Rightarrow> review_media_json \<Rightarrow> review_media_json" where
  "written_media mediaUrl stored =
     (if length (updatedMedia mediaUrl stored) > 0
      then JArray (updatedMedia mediaUrl stored) else JNull)"

text \<open>
  The body of the \<open>try\<close> block. \<open>url_pathname\<close> is the platform's URL parser:
  \<open>Inr\<close> the pathname of the URL, or \<open>Inl\<close> the message of the TypeError that
  \<open>new URL\<close> throws. The three error arguments are what the storage removal, the fetch
  of the order and the update of the order report.
\<close>

definition deleteReviewMedia_try ::
  "(string \<Rightarrow> string + string) \<Rightarrow> store \<Rightarrow> uuid \<Rightarrow> string
     \<Rightarrow> store_error option \<Rightarrow> store_error option \<Rightarrow> store_error option
     \<Rightarrow> (exn + bool) \<times> store_call list \<times> store" where
  "deleteReviewMedia_try url_pathname db orderId mediaUrl storageError fetchError updateError =
     (case url_pathname mediaUrl of
        Inl msg \<Rightarrow> (Inl (TypeError msg), [], db)
      | Inr pathname \<Rightarrow>
          let pathParts = split_on CHR ''/'' pathname in
          (case findIndex (\<lambda>p. p = ''review-submissions'') pathParts of
             None \<Rightarrow> (Inl (Error ''Invalid review media URL. File path not found.''), [], db)
           | Some idx \<Rightarrow>
               if idx = length pathParts - 1
               then (Inl (Error ''Invalid review media URL. File path not found.''), [], db)
               else
                 let filePath = join_with ''/'' (drop (idx + 1) pathParts);
                     calls1 = [StorageRemove filePath]
                 in (case storageError of
                       Some e \<Rightarrow>
                         (Inl (Error (if se_message e = []
                                      then ''Failed to delete file from storage.''
                                      else se_message e)),
                          calls1, db)
                     | None \<Rightarrow>
                         let db1 = db\<lparr> db_review_submissions :=
                                          filter (\<lambda>f. f \<noteq> filePath) (db_review_submissions db) \<rparr>;
                             calls2 = calls1 @ [SelectReviewMedia orderId];
                             fetch_failed =
                               (Inl (Error ''Failed to fetch order for review_media update.''),
                                calls2, db1)
                         in (case fetchError of
                               Some _ \<Rightarrow> fetch_failed
                             | None \<Rightarrow>
                                 (case filter (\<lambda>r. o_id r = orderId) (db_orders db1) of
                                    [orderRow] \<Rightarrow>
                                      (case o_review_media orderRow of
                                         JOther True \<Rightarrow>
                                           (Inl (TypeError not_a_function_message), calls2, db1)
                                       | stored \<Rightarrow>
                                           let written = written_media mediaUrl stored;
                                               calls3 = calls2 @ [UpdateReviewMedia orderId written]
                                           in (case updateError of
                                                 Some _ \<Rightarrow>
                                                   (Inl (Error ''Failed to update review_media in order.''),
                                                    calls3, db1)
                                               | None \<Rightarrow>
                                                   (Inr True, calls3,
                                                    db1\<lparr> db_orders :=
                                                           map (\<lambda>r. if o_id r = orderId
                                                                     then r\<lparr> o_review_media := written \<rparr>
                                                                     else r)
                                                             (db_orders db1) \<rparr>)))
                                  | _ \<Rightarrow> fetch_failed)))))"

text \<open>The \<open>catch\<close> block: every error is rethrown as a new \<open>Error\<close>.\<close>

definition deleteReviewMedia ::
  "(string \<Rightarrow> string + string) \<Rightarrow> store \<Rightarrow> uuid \<Rightarrow> string
     \<Rightarrow> store_error option \<Rightarrow> store_error option \<Rightarrow> store_error option
     \<Rightarrow> (exn + bool) \<times> store_call list \<times> store" where
  "deleteReviewMedia url_pathname db orderId mediaUrl storageError fetchError updateError =
     (case deleteReviewMedia_try url_pathname db orderId mediaUrl
             storageError fetchError updateError of
        (Inl err, calls, db') \<Rightarrow>
          (Inl (Error (''Failed to delete review media: '' @ message_or_err err)), calls, db')
      | (Inr ok, calls, db') \<Rightarrow> (Inr ok, calls, db'))"

section \<open>The client-side mirror (src/context/AppContext.tsx)\<close>

text \<open>
  The outcome of a fetch, as \<open>Promise.allSettled\<close> reports it. The record \<open>api\<close> holds
  the outcome of each fetch function at the moment it is called, by its argument.
\<close>

datatype 'a settled = Fulfilled 'a | RejectedWith exn

record api =
  getCampaigns :: "app_campaign list settled"
  getOrders :: "uuid option \<Rightarrow> app_order list settled"
  getTransactions :: "uuid option \<Rightarrow> app_transaction list settled"
  getEarnings :: "uuid option \<Rightarrow> app_earning list settled"
  getMessages :: "uuid option \<Rightarrow> app_message list settled"
  getFounders :: "app_user list settled"
  getTalents :: "app_user list settled"

typedecl job

record app_state =
  campaigns :: "app_campaign list"
  jobs :: "job list"
  messages :: "app_message list"
  transactions :: "app_transaction list"
  orders :: "app_order list"
  earnings :: "app_earning list"
  founders :: "app_user list"
  talents :: "app_user list"
  loading :: bool

fun user_base :: "app_user \<Rightarrow> base_user" where
  "user_base (PlainUser b) = b"
| "user_base (FounderUser b f) = b"
| "user_base (TalentUser b t) = b"

text \<open>\<open>if (r.status === 'fulfilled') set(r.value); else set([])\<close>.\<close>

definition value_or_empty :: "'a list settled \<Rightarrow> 'a list" where
  "value_or_empty r = (case r of Fulfilled v \<Rightarrow> v | RejectedWith reason \<Rightarrow> [])"

definition refreshData :: "api \<Rightarrow> app_user option \<Rightarrow> app_state \<Rightarrow> app_state" where
  "refreshData env user st =
     (case user of
        None \<Rightarrow> st
      | Some u \<Rightarrow>
          if u_role (user_base u) = Admin then
            st\<lparr> campaigns := value_or_empty (getCampaigns env),
                orders := value_or_empty (getOrders env None),
                transactions := value_or_empty (getTransactions env None),
                earnings := value_or_empty (getEarnings env None),
                messages := value_or_empty (getMessages env None),
                founders := value_or_empty (getFounders env),
                talents := value_or_empty (getTalents env),
                loading := False \<rparr>
          else
            st\<lparr> campaigns := value_or_empty (getCampaigns env),
                orders := value_or_empty (getOrders env (Some (u_id (user_base u)))),
                transactions := value_or_empty (getTransactions env (Some (u_id (user_base u)))),
                earnings :=
                  value_or_empty
                    (getEarnings env
                       (if u_role (user_base u) = Talent then Some (u_id (user_base u)) else None)),
                messages := value_or_empty (getMessages env None),
                talents :=
                  (if u_role (user_base u) = Founder then value_or_empty (getTalents env)
                   else []),
                founders := [],
                loading := False \<rparr>)"

text \<open>
  A change notification of the \<open>orders\<close> table as the channel delivers it: the new row
  and the server's commit timestamp.
\<close>

record order_change =
  oc_new :: order_row
  oc_commit_timestamp :: timestamp

text \<open>
  The callback \<open>AppProvider\<close> passes to \<open>subscribeToOrders\<close>: it takes no argument,
  fetches the orders again and, when the fetch succeeds, stores the result
  (\<open>getOrders(..).then(setOrders).catch(console.error)\<close>). Each fetch is taken to settle
  before the next notification is handled.
\<close>

definition on_order_change :: "api \<Rightarrow> app_user \<Rightarrow> order_change \<Rightarrow> app_state \<Rightarrow> app_state" where
  "on_order_change env user payload st =
     (case getOrders env (if u_role (user_base user) = Admin then None
                          else Some (u_id (user_base user))) of
        Fulfilled v \<Rightarrow> st\<lparr> orders := v \<rparr>
      | RejectedWith reason \<Rightarrow> st)"

section \<open>Notions of the specification\<close>

text \<open>
  The specification's ledger balance of a user (section 4.2): the sum of the credits
  minus the sum of the debits over the user's transactions. The definition follows the
  specification's words and serves to state properties; it models no function of the
  source.
\<close>

definition amount_of :: "transaction_type \<Rightarrow> app_transaction list \<Rightarrow> uuid \<Rightarrow> int" where
  "amount_of kind txs userId =
     sum_list (map at_amount (filter (\<lambda>t. at_userId t = userId \<and> at_type t = kind) txs))"

definition ledger_balance :: "app_transaction list \<Rightarrow> uuid \<Rightarrow> int" where
  "ledger_balance txs userId = amount_of Credit txs userId - amount_of Debit txs userId"

text \<open>
  The specification's invariant of approval (sections 3 and 8): every approved
  application has exactly one order for its campaign and talent, that order has exactly
  one hold (section 4.2: a debit transaction of the order's founder, of the order's
  payout, related to the order), and every order belongs to an approved application.
\<close>

definition corresponds :: "order_row \<Rightarrow> application_row \<Rightarrow> bool" where
  "corresponds r a = (o_campaign_id r = a_campaign_id a \<and> o_talent_id r = a_talent_id a)"

definition holds_of :: "store \<Rightarrow> order_row \<Rightarrow> transaction_row list" where
  "holds_of db r =
     filter (\<lambda>t. t_type t = Debit \<and> t_related_order_id t = Some (o_id r)
                \<and> t_user_id t = o_founder_id r \<and> t_amount t = o_payout r)
       (db_transactions db)"

definition escrow_invariant :: "store \<Rightarrow> bool" where
  "escrow_invariant db =
     ((\<forall>a \<in> set (db_campaign_applications db).
         a_status a = Approved \<longrightarrow>
           (case filter (\<lambda>r. corresponds r a) (db_orders db) of
              [r] \<Rightarrow> length (holds_of db r) = 1
            | _ \<Rightarrow> False))
      \<and> (\<forall>r \<in> set (db_orders db).
            \<exists>a \<in> set (db_campaign_applications db). a_status a = Approved \<and> corresponds r a))"

text \<open>The credit transactions and the earnings recorded for an order.\<close>

definition credits_of :: "store \<Rightarrow> uuid \<Rightarrow> transaction_row list" where
  "credits_of db orderId =
     filter (\<lambda>t. t_type t = Credit \<and> t_related_order_id t = Some orderId) (db_transactions db)"

definition earnings_of :: "store \<Rightarrow> uuid \<Rightarrow> earning_row list" where
  "earnings_of db orderId = filter (\<lambda>e. e_order_id e = orderId) (db_earnings db)"

section \<open>Accessors and empty arguments\<close>

text \<open>\<open>founder.walletBalance\<close>, the balance the client shows; only a Founder has one.\<close>

fun walletBalance :: "app_user \<Rightarrow> int option" where
  "walletBalance (FounderUser b f) = Some (f_walletBalance f)"
| "walletBalance (PlainUser b) = None"
| "walletBalance (TalentUser b t) = None"

text \<open>The empty updates object \<open>{}\<close>.\<close>

definition no_updates :: order_updates where
  "no_updates =
     \<lparr> up_id = None, up_campaign_id = None, up_talent_id = None, up_founder_id = None,
       up_status = None, up_payout = None, up_created_at = None, up_updated_at = None,
       up_delivery_address = None, up_tracking_number = None, up_courier = None,
       up_review_media = None, up_review_submitted_at = None \<rparr>"

text \<open>The scope of the order, transaction and earning fetches of a user.\<close>

definition own_scope :: "app_user \<Rightarrow> uuid option" where
  "own_scope u = (if u_role (user_base u) = Admin then None else Some (u_id (user_base u)))"

definition earnings_scope :: "app_user \<Rightarrow> uuid option" where
  "earnings_scope u =
     (if u_role (user_base u) = Talent then Some (u_id (user_base u)) else None)"

section \<open>Example data\<close>

definition founder1 :: profile_row where
  "founder1 =
     \<lparr> p_id = ''f1'', p_email = ''f1@x.my'', p_name = ''Fa'', p_phone = None,
       p_address = None, p_role = Founder, p_status = UserActive, p_avatar_url = None,
       p_created_at = Some 1, p_company = Some ''Kaca'', p_wallet_balance = Some 100,
       p_bio = None, p_portfolio = None, p_rate_level = None, p_skills = None,
       p_social_media = None, p_total_earnings = None \<rparr>"

definition talent1 :: profile_row where
  "talent1 =
     \<lparr> p_id = ''t1'', p_email = ''t1@x.my'', p_name = ''Ti'', p_phone = None,
       p_address = None, p_role = Talent, p_status = UserActive, p_avatar_url = None,
       p_created_at = Some 2, p_company = None, p_wallet_balance = None,
       p_bio = None, p_portfolio = None, p_rate_level = Some 2, p_skills = None,
       p_social_media = None, p_total_earnings = Some 0 \<rparr>"

definition campaign1 :: campaign_row where
  "campaign1 =
     \<lparr> c_id = ''c1'', c_founder_id = ''f1'', c_title = ''Lens'', c_description = ''d'',
       c_product_name = ''Lens'', c_category = ''photo'', c_duration = ''30sec'',
       c_product_images = None, c_rate_level = 1, c_media_type = ''image'',
       c_budget = Some 100, c_price = Some 100, c_status = Active,
       c_created_at = Some 3, c_deadline = None \<rparr>"

definition order1 :: order_row where
  "order1 =
     \<lparr> o_id = ''o1'', o_campaign_id = ''c1'', o_talent_id = ''t1'', o_founder_id = ''f1'',
       o_status = Completed, o_payout = Some 100, o_created_at = Some 5,
       o_updated_at = Some 9, o_delivery_address = Some ''KL'', o_tracking_number = None,
       o_courier = None,
       o_review_media = JArray [\<lparr> m_url = ''https://s.my/review-submissions/o1/a.png'',
                                  m_type = Image \<rparr>],
       o_review_submitted_at = Some 8 \<rparr>"

definition empty_store :: store where
  "empty_store =
     \<lparr> db_profiles = [], db_campaigns = [], db_campaign_applications = [], db_orders = [],
       db_transactions = [], db_earnings = [], db_review_submissions = [] \<rparr>"

definition store1 :: store where
  "store1 =
     empty_store\<lparr> db_profiles := [founder1, talent1], db_campaigns := [campaign1],
                   db_orders := [order1],
                   db_review_submissions := [''o1/a.png''] \<rparr>"

text \<open>A URL parser for the examples: the pathname is what follows the host \<open>s.my\<close>.\<close>

definition pathname_after_host :: "string \<Rightarrow> string + string" where
  "pathname_after_host u =
     (if take 12 u = ''https://s.my'' then Inr (drop 12 u) else Inl ''Invalid URL'')"

definition admin1 :: profile_row where
  "admin1 = founder1\<lparr> p_id := ''a1'', p_role := Admin, p_wallet_balance := None \<rparr>"

text \<open>The order while it waits for shipment, and two later snapshots of it.\<close>

definition order0 :: order_row where
  "order0 = order1\<lparr> o_status := PendingShipment, o_updated_at := Some 5,
                       o_review_media := JNull, o_review_submitted_at := None \<rparr>"

definition change_T1 :: order_change where
  "change_T1 = \<lparr> oc_new = order0\<lparr> o_status := Shipped, o_updated_at := Some 20 \<rparr>,
                  oc_commit_timestamp = 20 \<rparr>"

definition change_T2 :: order_change where
  "change_T2 = \<lparr> oc_new = order0\<lparr> o_status := PendingShipment, o_updated_at := Some 10 \<rparr>,
                  oc_commit_timestamp = 10 \<rparr>"

definition shown :: "order_row \<Rightarrow> app_order" where
  "shown row = convertOrderToApp 0 row ''Lens'' ''Ti'' ''Lens''"

definition topup :: transaction_row where
  "topup = \<lparr> t_id = ''x1'', t_user_id = ''f1'', t_type = Credit, t_amount = Some 150,
              t_description = ''top up'', t_related_order_id = None, t_created_at = Some 4 \<rparr>"

definition hold1 :: transaction_row where
  "hold1 = \<lparr> t_id = ''x2'', t_user_id = ''f1'', t_type = Debit, t_amount = Some 100,
              t_description = ''hold'', t_related_order_id = Some ''o1'', t_created_at = Some 5 \<rparr>"

text \<open>A backend that cannot be reached, and one that answers.\<close>

definition env_down :: api where
  "env_down =
     \<lparr> getCampaigns = RejectedWith (Error ''Failed to fetch''),
       getOrders = (\<lambda>u. RejectedWith (Error ''Failed to fetch'')),
       getTransactions = (\<lambda>u. RejectedWith (Error ''Failed to fetch'')),
       getEarnings = (\<lambda>u. RejectedWith (Error ''Failed to fetch'')),
       getMessages = (\<lambda>u. RejectedWith (Error ''Failed to fetch'')),
       getFounders = RejectedWith (Error ''Failed to fetch''),
       getTalents = RejectedWith (Error ''Failed to fetch'') \<rparr>"

definition env_up :: api where
  "env_up =
     \<lparr> getCampaigns = Fulfilled [convertCampaignToApp campaign1 [] [''t1'']],
       getOrders = (\<lambda>u. Fulfilled [shown (order0\<lparr> o_status := Delivered, o_updated_at := Some 30 \<rparr>)]),
       getTransactions = (\<lambda>u. RejectedWith (Error ''Failed to fetch'')),
       getEarnings = (\<lambda>u. Fulfilled []),
       getMessages = (\<lambda>u. Fulfilled []),
       getFounders = Fulfilled [convertProfileToUser founder1],
       getTalents = Fulfilled [convertProfileToUser talent1] \<rparr>"

definition mirror0 :: app_state where
  "mirror0 =
     \<lparr> campaigns = [], jobs = [], messages = [],
       transactions = [convertTransaction topup, convertTransaction hold1],
       orders = [shown order0], earnings = [], founders = [], talents = [],
       loading = False \<rparr>"

definition application1 :: application_row where
  "application1 = \<lparr> a_id = ''ap1'', a_campaign_id = ''c1'', a_talent_id = ''t1'',
                     a_status = Pending \<rparr>"

text \<open>
  The founder's ledger holds a single credit of 50; the campaign's price is 100 and the
  talent's application is pending.
\<close>

definition store3 :: store where
  "store3 =
     empty_store\<lparr> db_profiles := [founder1, talent1], db_campaigns := [campaign1],
                   db_campaign_applications := [application1],
                   db_transactions := [topup\<lparr> t_amount := Some 50 \<rparr>] \<rparr>"

text \<open>The three writes of an approval, on \<open>store3\<close>.\<close>

definition order_data2 :: order_data where
  "order_data2 =
     \<lparr> od_campaignId = ''c1'', od_talentId = ''t1'', od_founderId = ''f1'',
       od_status = PendingShipment, od_payout = 100, od_updatedAt = None,
       od_deliveryInfo = None, od_reviewSubmission = None \<rparr>"

definition order2 :: order_row where
  "order2 =
     \<lparr> o_id = ''o2'', o_campaign_id = ''c1'', o_talent_id = ''t1'', o_founder_id = ''f1'',
       o_status = PendingShipment, o_payout = Some 100, o_created_at = Some 6,
       o_updated_at = None, o_delivery_address = None, o_tracking_number = None,
       o_courier = None, o_review_media = JNull, o_review_submitted_at = None \<rparr>"

definition hold_data2 :: transaction_data where
  "hold_data2 =
     \<lparr> td_userId = ''f1'', td_type = Debit, td_amount = 100, td_description = ''hold'',
       td_relatedJobId = Some ''o2'' \<rparr>"

definition hold2 :: transaction_row where
  "hold2 = \<lparr> t_id = ''x3'', t_user_id = ''f1'', t_type = Debit, t_amount = Some 100,
              t_description = ''hold'', t_related_order_id = Some ''o2'',
              t_created_at = Some 7 \<rparr>"

definition approved3 :: store where
  "approved3 = store3\<lparr> db_campaign_applications := [application1\<lparr> a_status := Approved \<rparr>] \<rparr>"

definition ordered3 :: store where
  "ordered3 = approved3\<lparr> db_orders := [order2] \<rparr>"

definition held3 :: store where
  "held3 = ordered3\<lparr> db_transactions := [topup\<lparr> t_amount := Some 50 \<rparr>, hold2] \<rparr>"

text \<open>The two writes of a release of the completed order \<open>o1\<close>, done once and twice.\<close>

definition credit_data1 :: transaction_data where
  "credit_data1 =
     \<lparr> td_userId = ''t1'', td_type = Credit, td_amount = 100, td_description = ''payout'',
       td_relatedJobId = Some ''o1'' \<rparr>"

definition earning_data1 :: earning_data where
  "earning_data1 =
     \<lparr> ed_talentId = ''t1'', ed_orderId = ''o1'', ed_campaignTitle = ''Lens'',
       ed_amount = 100, ed_status = EarningPending, ed_paidAt = None \<rparr>"

definition released_once :: store where
  "released_once =
     snd (createEarning
            (snd (createTransaction store1 credit_data1
                    (Inr (\<lparr> ins_id = ''x5'', ins_at = Some 10 \<rparr>, True))))
            earning_data1 (Inr \<lparr> ins_id = ''e1'', ins_at = Some 10 \<rparr>))"

definition released_twice :: store where
  "released_twice =
     snd (createEarning
            (snd (createTransaction released_once credit_data1
                    (Inr (\<lparr> ins_id = ''x6'', ins_at = Some 11 \<rparr>, True))))
            earning_data1 (Inr \<lparr> ins_id = ''e2'', ins_at = Some 11 \<rparr>))"

lemmas example_defs =
  founder1_def talent1_def admin1_def campaign1_def order1_def order0_def empty_store_def
  store1_def change_T1_def change_T2_def shown_def topup_def hold1_def env_down_def
  env_up_def mirror0_def application1_def store3_def order_data2_def order2_def
  hold_data2_def hold2_def approved3_def ordered3_def held3_def credit_data1_def
  earning_data1_def released_once_def released_twice_def

section \<open>Properties\<close>

subsection \<open>Approval and the set-up of escrow\<close>

lemma filter_single_member:
  assumes "filter P xs = [y]" and "x \<in> set xs" and "P x"
  shows "x = y"
proof -
  have "x \<in> set (filter P xs)" using assms(2,3) by simp
  then show ?thesis using assms(1) by simp
qed

lemma filter_single_holds:
  assumes "filter P xs = [y]"
  shows "y \<in> set xs \<and> P y"
proof -
  have "y \<in> set (filter P xs)" using assms by simp
  then show ?thesis by simp
qed

lemma single_case:
  "(case xs of [] \<Rightarrow> False | [r] \<Rightarrow> P r | r # s # rest \<Rightarrow> False) = (\<exists>r. xs = [r] \<and> P r)"
  by (simp split: list.splits)

lemma escrow_invariant_iff:
  "escrow_invariant db =
     ((\<forall>a \<in> set (db_campaign_applications db).
         a_status a = Approved \<longrightarrow>
           (\<exists>r. filter (\<lambda>r. corresponds r a) (db_orders db) = [r]
                \<and> length (holds_of db r) = 1))
      \<and> (\<forall>r \<in> set (db_orders db).
            \<exists>a \<in> set (db_campaign_applications db). a_status a = Approved \<and> corresponds r a))"
  by (simp add: escrow_invariant_def single_case)

lemma approval_sequence:
  fixes db db1 db2 db3 :: store
  assumes inv: "escrow_invariant db"
    and one: "filter (\<lambda>x. a_campaign_id x = c \<and> a_talent_id x = t)
                (db_campaign_applications db) = [a]"
    and pend: "a_status a \<noteq> Approved"
    and apps1: "db_campaign_applications db1 =
                  map (\<lambda>x. if a_campaign_id x = c \<and> a_talent_id x = t
                            then x\<lparr> a_status := Approved \<rparr> else x)
                    (db_campaign_applications db)"
    and ord1: "db_orders db1 = db_orders db"
    and tx1: "db_transactions db1 = db_transactions db"
    and apps2: "db_campaign_applications db2 = db_campaign_applications db1"
    and ord2: "db_orders db2 = db_orders db1 @ [row]"
    and tx2: "db_transactions db2 = db_transactions db1"
    and row: "o_id row = oid" "o_campaign_id row = c" "o_talent_id row = t"
      "o_founder_id row = fid" "o_payout row = pay"
    and fresh_o: "\<forall>r \<in> set (db_orders db). o_id r \<noteq> oid"
    and fresh_t: "\<forall>x \<in> set (db_transactions db). t_related_order_id x \<noteq> Some oid"
    and apps3: "db_campaign_applications db3 = db_campaign_applications db2"
    and ord3: "db_orders db3 = db_orders db2"
    and tx3: "db_transactions db3 = db_transactions db2 @ [trow]"
    and trow: "t_type trow = Debit" "t_related_order_id trow = Some oid"
      "t_user_id trow = fid" "t_amount trow = pay"
  shows "\<not> escrow_invariant db1 \<and> \<not> escrow_invariant db2 \<and> escrow_invariant db3"
proof -
  let ?hit = "\<lambda>x. a_campaign_id x = c \<and> a_talent_id x = t"
  let ?f = "\<lambda>x. if ?hit x then x\<lparr> a_status := Approved \<rparr> else x"
  let ?a' = "a\<lparr> a_status := Approved \<rparr>"
  from filter_single_holds [OF one] have a_in: "a \<in> set (db_campaign_applications db)"
    and a_hit: "?hit a" by simp_all
  have uniq: "x = a" if "x \<in> set (db_campaign_applications db)" "?hit x" for x
    using filter_single_member [OF one that(1)] that(2) by simp
  have no_order: "\<not> (o_campaign_id r = c \<and> o_talent_id r = t)"
    if r: "r \<in> set (db_orders db)" for r
  proof
    assume p: "o_campaign_id r = c \<and> o_talent_id r = t"
    from inv r obtain x where x: "x \<in> set (db_campaign_applications db)"
      "a_status x = Approved" "corresponds r x"
      unfolding escrow_invariant_iff by blast
    from x(3) p have "?hit x" by (simp add: corresponds_def)
    with x(1) have "x = a" by (rule uniq)
    with x(2) pend show False by simp
  qed
  have no_match: "filter (\<lambda>r. corresponds r ?a') (db_orders db) = []"
    using no_order a_hit by (simp add: filter_empty_conv corresponds_def)
  have a'_in1: "?a' \<in> set (db_campaign_applications db1)"
  proof -
    have "?f a \<in> ?f ` set (db_campaign_applications db)" using a_in by (rule imageI)
    then show ?thesis using a_hit by (simp add: apps1)
  qed
  have no_hold: "holds_of db1 row = []"
    using fresh_t row(1) by (simp add: holds_of_def tx1 filter_empty_conv)
  have not1: "\<not> escrow_invariant db1"
  proof
    assume "escrow_invariant db1"
    with a'_in1 obtain r where "filter (\<lambda>r. corresponds r ?a') (db_orders db1) = [r]"
      unfolding escrow_invariant_iff by fastforce
    with no_match show False by (simp add: ord1)
  qed
  have row_match: "corresponds row ?a'"
    using row a_hit by (simp add: corresponds_def)
  have match2: "filter (\<lambda>r. corresponds r ?a') (db_orders db2) = [row]"
    using no_match row_match by (simp add: ord2 ord1)
  have not2: "\<not> escrow_invariant db2"
  proof
    assume i2: "escrow_invariant db2"
    have "?a' \<in> set (db_campaign_applications db2)" using a'_in1 by (simp add: apps2)
    with i2 obtain r where r: "filter (\<lambda>r. corresponds r ?a') (db_orders db2) = [r]"
      "length (holds_of db2 r) = 1"
      unfolding escrow_invariant_iff by fastforce
    from r(1) match2 have "r = row" by simp
    with r(2) have "length (holds_of db2 row) = 1" by simp
    moreover have "holds_of db2 row = holds_of db1 row" by (simp add: holds_of_def tx2)
    ultimately show False using no_hold by simp
  qed
  have apps3': "db_campaign_applications db3 = map ?f (db_campaign_applications db)"
    by (simp add: apps3 apps2 apps1)
  have ord3': "db_orders db3 = db_orders db @ [row]"
    by (simp add: ord3 ord2 ord1)
  have tx3': "db_transactions db3 = db_transactions db @ [trow]"
    by (simp add: tx3 tx2 tx1)
  have holds_new: "holds_of db3 row = [trow]"
    using fresh_t trow row by (simp add: holds_of_def tx3' filter_empty_conv)
  have holds_old: "holds_of db3 r = holds_of db r"
    if "r \<in> set (db_orders db)" for r
  proof -
    from that fresh_o have "o_id r \<noteq> oid" by simp
    then show ?thesis using trow by (auto simp: holds_of_def tx3')
  qed
  have part1: "\<exists>r. filter (\<lambda>r. corresponds r y) (db_orders db3) = [r]
                  \<and> length (holds_of db3 r) = 1"
    if y: "y \<in> set (db_campaign_applications db3)" "a_status y = Approved" for y
  proof -
    from y(1) obtain x where x: "x \<in> set (db_campaign_applications db)" "y = ?f x"
      unfolding apps3' by auto
    show ?thesis
    proof (cases "?hit x")
      case True
      with x(1) have "x = a" by (rule uniq)
      with x(2) a_hit have "y = ?a'" by simp
      then have "filter (\<lambda>r. corresponds r y) (db_orders db3) = [row]"
        using no_match row_match by (simp add: ord3')
      moreover have "length (holds_of db3 row) = 1"
        using holds_new by simp
      ultimately show ?thesis by blast
    next
      case False
      with x(2) have yx: "y = x" by simp
      with y(2) x(1) inv obtain r where r: "filter (\<lambda>r. corresponds r x) (db_orders db) = [r]"
        "length (holds_of db r) = 1"
        unfolding escrow_invariant_iff by blast
      from False row have "\<not> corresponds row x" by (auto simp: corresponds_def)
      with r(1) have "filter (\<lambda>r. corresponds r y) (db_orders db3) = [r]"
        by (simp add: ord3' yx)
      moreover from filter_single_holds [OF r(1)] have "r \<in> set (db_orders db)" by simp
      then have "length (holds_of db3 r) = 1" using r(2) by (simp add: holds_old)
      ultimately show ?thesis by blast
    qed
  qed
  have keep: "\<exists>y \<in> set (db_campaign_applications db3). a_status y = Approved \<and> corresponds r y"
    if x: "x \<in> set (db_campaign_applications db)" "a_status x = Approved" "corresponds r x"
    for r x
  proof -
    have "?f x \<in> set (db_campaign_applications db3)"
      using x(1) unfolding apps3' by (simp only: set_map) (rule imageI)
    moreover have "a_status (?f x) = Approved" using x(2) by simp
    moreover have "corresponds r (?f x)" using x(3) by (simp add: corresponds_def)
    ultimately show ?thesis by blast
  qed
  have part2: "\<exists>y \<in> set (db_campaign_applications db3). a_status y = Approved \<and> corresponds r y"
    if r: "r \<in> set (db_orders db3)" for r
  proof (cases "r = row")
    case True
    have "?f a \<in> set (db_campaign_applications db3)"
      using a_in unfolding apps3' by (simp only: set_map) (rule imageI)
    then have "?a' \<in> set (db_campaign_applications db3)" using a_hit by simp
    moreover have "a_status ?a' = Approved" by simp
    ultimately show ?thesis using row_match True by blast
  next
    case False
    with r have "r \<in> set (db_orders db)" by (simp add: ord3')
    with inv obtain x where "x \<in> set (db_campaign_applications db)"
      "a_status x = Approved" "corresponds r x"
      unfolding escrow_invariant_iff by blast
    then show ?thesis by (rule keep)
  qed
  have "escrow_invariant db3"
    unfolding escrow_invariant_iff using part1 part2 by blast
  with not1 not2 show ?thesis by simp
qed

lemma updateApplicationStatus_approved:
  assumes "updateApplicationStatus db c t ToApproved e = (Inr a', db1)"
  shows "db1 = db\<lparr> db_campaign_applications :=
                  map (\<lambda>x. if a_campaign_id x = c \<and> a_talent_id x = t
                            then x\<lparr> a_status := Approved \<rparr> else x)
                    (db_campaign_applications db) \<rparr>"
  using assms
  by (clarsimp simp: updateApplicationStatus_def Let_def split: option.splits list.splits)

lemma createOrder_success:
  assumes "createOrder db od now (Inr ins) = (Inr ord, db2)"
  shows "db2 = db\<lparr> db_orders := db_orders db @ [last (db_orders db2)] \<rparr>
           \<and> o_id (last (db_orders db2)) = ins_id ins
           \<and> o_campaign_id (last (db_orders db2)) = od_campaignId od
           \<and> o_talent_id (last (db_orders db2)) = od_talentId od
           \<and> o_founder_id (last (db_orders db2)) = od_founderId od
           \<and> o_payout (last (db_orders db2)) = Some (od_payout od)
           \<and> ao_id ord = ins_id ins"
  using assms
  by (clarsimp simp: createOrder_def with_campaign_def convert_embedded_def Let_def
      convertOrderToApp_def split: option.splits)

lemma createTransaction_accepted:
  assumes "createTransaction db td (Inr (ins, returned)) = (res, db3)"
  shows "db3 = db\<lparr> db_transactions := db_transactions db @ [last (db_transactions db3)] \<rparr>
           \<and> t_type (last (db_transactions db3)) = td_type td
           \<and> t_related_order_id (last (db_transactions db3)) = td_relatedJobId td
           \<and> t_user_id (last (db_transactions db3)) = td_userId td
           \<and> t_amount (last (db_transactions db3)) = Some (td_amount td)
           \<and> \<not> isl res"
  using assms
  by (clarsimp simp: createTransaction_def Let_def)

lemma store3_invariant: "escrow_invariant store3"
  by (simp add: escrow_invariant_def store3_def empty_store_def application1_def)

lemma store3_approve:
  "updateApplicationStatus store3 ''c1'' ''t1'' ToApproved None =
     (Inr (application1\<lparr> a_status := Approved \<rparr>), approved3)"
  by (simp add: updateApplicationStatus_def Let_def approved3_def store3_def empty_store_def
      application1_def)

lemma approved3_createOrder:
  "createOrder approved3 order_data2 6 (Inr \<lparr> ins_id = ''o2'', ins_at = Some 6 \<rparr>) =
     (Inr (convertOrderToApp 6 order2 ''Lens'' ''Ti'' ''Lens''), ordered3)"
  by (simp add: createOrder_def with_campaign_def convert_embedded_def Let_def
      List.map_filter_simps embed_campaign_def embed_profile_def ordered3_def approved3_def
      store3_def empty_store_def order_data2_def order2_def campaign1_def founder1_def
      talent1_def)

lemma ordered3_hold:
  "createTransaction ordered3 hold_data2 (Inr (\<lparr> ins_id = ''x3'', ins_at = Some 7 \<rparr>, True)) =
     (Inr (Stored (convertTransaction hold2)), held3)"
  by (simp add: createTransaction_def Let_def held3_def ordered3_def approved3_def store3_def
      empty_store_def hold_data2_def hold2_def)

text \<open>
  C1, as stated, fails. From a store in which the invariant holds (one pending
  application, reached by \<open>applyCampaign\<close>), \<open>updateApplicationStatus\<close> alone leaves an
  approved application without an order, and \<open>createOrder\<close> alone leaves an order whose
  application is still pending.
\<close>

theorem approval_is_atomic_counterexample:
  "applyCampaign (store3\<lparr> db_campaign_applications := [] \<rparr>) ''c1'' ''t1'' None (Inr ''ap1'') =
     (Inr application1, store3)
   \<and> escrow_invariant store3
   \<and> updateApplicationStatus store3 ''c1'' ''t1'' ToApproved None =
       (Inr (application1\<lparr> a_status := Approved \<rparr>), approved3)
   \<and> db_orders approved3 = []
   \<and> \<not> escrow_invariant approved3
   \<and> createOrder store3 order_data2 6 (Inr \<lparr> ins_id = ''o2'', ins_at = Some 6 \<rparr>) =
       (Inr (convertOrderToApp 6 order2 ''Lens'' ''Ti'' ''Lens''), store3\<lparr> db_orders := [order2] \<rparr>)
   \<and> map a_status (db_campaign_applications (store3\<lparr> db_orders := [order2] \<rparr>)) = [Pending]
   \<and> \<not> escrow_invariant (store3\<lparr> db_orders := [order2] \<rparr>)"
proof -
  have 1: "applyCampaign (store3\<lparr> db_campaign_applications := [] \<rparr>) ''c1'' ''t1'' None
             (Inr ''ap1'') = (Inr application1, store3)"
    by (simp add: applyCampaign_def Let_def store3_def empty_store_def application1_def)
  have 2: "db_orders approved3 = [] \<and> \<not> escrow_invariant approved3"
    by (simp add: escrow_invariant_def approved3_def store3_def empty_store_def
        application1_def)
  have 3: "createOrder store3 order_data2 6 (Inr \<lparr> ins_id = ''o2'', ins_at = Some 6 \<rparr>) =
       (Inr (convertOrderToApp 6 order2 ''Lens'' ''Ti'' ''Lens''), store3\<lparr> db_orders := [order2] \<rparr>)"
    by (simp add: createOrder_def with_campaign_def convert_embedded_def Let_def
        List.map_filter_simps embed_campaign_def embed_profile_def
        store3_def empty_store_def order_data2_def order2_def campaign1_def founder1_def
        talent1_def)
  have 4: "map a_status (db_campaign_applications (store3\<lparr> db_orders := [order2] \<rparr>)) = [Pending]
       \<and> \<not> escrow_invariant (store3\<lparr> db_orders := [order2] \<rparr>)"
    by (simp add: escrow_invariant_def store3_def empty_store_def application1_def order2_def)
  from 1 store3_invariant store3_approve 2 3 4 show ?thesis by (intro conjI) simp_all
qed

text \<open>
  C1, amended. Through \<open>updateApplicationStatus\<close>, \<open>createOrder\<close> and
  \<open>createTransaction\<close> an approval is three separate writes. Start where the invariant
  holds and the one application of the campaign and talent is pending.
  \<open>updateApplicationStatus\<close>, when it succeeds, changes only the statuses of the
  applications of that campaign and talent, and the invariant is then broken: the
  approved application has no order. \<open>createOrder\<close> for the same campaign and
  talent, when it succeeds with an id that no order has and no transaction refers to,
  only appends one order, and the invariant is still broken: the order has no hold.
  \<open>createTransaction\<close> of a debit of the order's founder, of the order's payout,
  related to the new order, when the store accepts it, only appends that transaction,
  and only then does the invariant hold again.
\<close>

theorem approval_is_three_separate_writes:
  assumes inv: "escrow_invariant db"
    and one: "filter (\<lambda>x. a_campaign_id x = c \<and> a_talent_id x = t)
                (db_campaign_applications db) = [a]"
    and pend: "a_status a = Pending"
    and s1: "updateApplicationStatus db c t ToApproved e = (Inr a', db1)"
    and s2: "createOrder db1 od now (Inr ins) = (Inr ord, db2)"
    and od: "od_campaignId od = c" "od_talentId od = t"
    and fresh_o: "\<forall>r \<in> set (db_orders db). o_id r \<noteq> ins_id ins"
    and fresh_t: "\<forall>x \<in> set (db_transactions db). t_related_order_id x \<noteq> Some (ins_id ins)"
    and s3: "createTransaction db2 td (Inr (ins', returned)) = (res, db3)"
    and td: "td_type td = Debit" "td_relatedJobId td = Some (ao_id ord)"
      "td_userId td = od_founderId od" "td_amount td = od_payout od"
  shows "\<not> escrow_invariant db1 \<and> \<not> escrow_invariant db2 \<and> escrow_invariant db3
         \<and> db1 = db\<lparr> db_campaign_applications :=
                        map (\<lambda>x. if a_campaign_id x = c \<and> a_talent_id x = t
                                  then x\<lparr> a_status := Approved \<rparr> else x)
                          (db_campaign_applications db) \<rparr>
         \<and> (\<exists>row. db2 = db1\<lparr> db_orders := db_orders db1 @ [row] \<rparr>
                \<and> o_id row = ins_id ins \<and> o_campaign_id row = c \<and> o_talent_id row = t
                \<and> o_founder_id row = od_founderId od
                \<and> o_payout row = Some (od_payout od))
         \<and> (\<exists>trow. db3 = db2\<lparr> db_transactions := db_transactions db2 @ [trow] \<rparr>
                \<and> t_type trow = Debit \<and> t_related_order_id trow = Some (ins_id ins)
                \<and> t_user_id trow = od_founderId od
                \<and> t_amount trow = Some (od_payout od))"
proof -
  let ?row = "last (db_orders db2)"
  let ?trow = "last (db_transactions db3)"
  from updateApplicationStatus_approved [OF s1]
  have w1: "db1 = db\<lparr> db_campaign_applications :=
                        map (\<lambda>x. if a_campaign_id x = c \<and> a_talent_id x = t
                                  then x\<lparr> a_status := Approved \<rparr> else x)
                          (db_campaign_applications db) \<rparr>" .
  from createOrder_success [OF s2]
  have w2: "db2 = db1\<lparr> db_orders := db_orders db1 @ [?row] \<rparr>"
    and row: "o_id ?row = ins_id ins" "o_campaign_id ?row = c" "o_talent_id ?row = t"
      "o_founder_id ?row = od_founderId od" "o_payout ?row = Some (od_payout od)"
    and oid: "ao_id ord = ins_id ins"
    using od by simp_all
  from createTransaction_accepted [OF s3]
  have w3: "db3 = db2\<lparr> db_transactions := db_transactions db2 @ [?trow] \<rparr>"
    and trow: "t_type ?trow = Debit" "t_related_order_id ?trow = Some (ins_id ins)"
      "t_user_id ?trow = od_founderId od" "t_amount ?trow = Some (od_payout od)"
    using td oid by simp_all
  have apps1: "db_campaign_applications db1 =
           map (\<lambda>x. if a_campaign_id x = c \<and> a_talent_id x = t
                     then x\<lparr> a_status := Approved \<rparr> else x)
             (db_campaign_applications db)"
    and ord1: "db_orders db1 = db_orders db"
    and tx1: "db_transactions db1 = db_transactions db"
    by (subst w1, simp)+
  have apps2: "db_campaign_applications db2 = db_campaign_applications db1"
    and ord2: "db_orders db2 = db_orders db1 @ [?row]"
    and tx2: "db_transactions db2 = db_transactions db1"
    by (subst w2, simp)+
  have apps3: "db_campaign_applications db3 = db_campaign_applications db2"
    and ord3: "db_orders db3 = db_orders db2"
    and tx3: "db_transactions db3 = db_transactions db2 @ [?trow]"
    by (subst w3, simp)+
  from pend have pend': "a_status a \<noteq> Approved" by simp
  from approval_sequence [OF inv one pend' apps1 ord1 tx1 apps2 ord2 tx2 row fresh_o fresh_t
      apps3 ord3 tx3 trow]
  have seq: "\<not> escrow_invariant db1 \<and> \<not> escrow_invariant db2 \<and> escrow_invariant db3" .
  have x2: "\<exists>row. db2 = db1\<lparr> db_orders := db_orders db1 @ [row] \<rparr>
                \<and> o_id row = ins_id ins \<and> o_campaign_id row = c \<and> o_talent_id row = t
                \<and> o_founder_id row = od_founderId od
                \<and> o_payout row = Some (od_payout od)"
    using w2 row by (intro exI [of _ ?row] conjI)
  have x3: "\<exists>trow. db3 = db2\<lparr> db_transactions := db_transactions db2 @ [trow] \<rparr>
                \<and> t_type trow = Debit \<and> t_related_order_id trow = Some (ins_id ins)
                \<and> t_user_id trow = od_founderId od
                \<and> t_amount trow = Some (od_payout od)"
    using w3 trow by (intro exI [of _ ?trow] conjI)
  from seq w1 x2 x3 show ?thesis by (intro conjI) simp_all
qed

theorem approval_is_three_separate_writes_witness:
  "escrow_invariant store3
   \<and> updateApplicationStatus store3 ''c1'' ''t1'' ToApproved None =
       (Inr (application1\<lparr> a_status := Approved \<rparr>), approved3)
   \<and> createOrder approved3 order_data2 6 (Inr \<lparr> ins_id = ''o2'', ins_at = Some 6 \<rparr>) =
       (Inr (convertOrderToApp 6 order2 ''Lens'' ''Ti'' ''Lens''), ordered3)
   \<and> createTransaction ordered3 hold_data2 (Inr (\<lparr> ins_id = ''x3'', ins_at = Some 7 \<rparr>, True)) =
       (Inr (Stored (convertTransaction hold2)), held3)
   \<and> \<not> escrow_invariant approved3 \<and> \<not> escrow_invariant ordered3 \<and> escrow_invariant held3"
proof -
  have one: "filter (\<lambda>x. a_campaign_id x = ''c1'' \<and> a_talent_id x = ''t1'')
                (db_campaign_applications store3) = [application1]"
    by (simp add: store3_def empty_store_def application1_def)
  have pend: "a_status application1 = Pending" by (simp add: application1_def)
  have od: "od_campaignId order_data2 = ''c1''" "od_talentId order_data2 = ''t1''"
    by (simp_all add: order_data2_def)
  have fresh_o: "\<forall>r \<in> set (db_orders store3).
                   o_id r \<noteq> ins_id \<lparr> ins_id = ''o2'', ins_at = Some 6 \<rparr>"
    by (simp add: store3_def empty_store_def)
  have fresh_t: "\<forall>x \<in> set (db_transactions store3).
                   t_related_order_id x \<noteq> Some (ins_id \<lparr> ins_id = ''o2'', ins_at = Some 6 \<rparr>)"
    by (simp add: store3_def empty_store_def topup_def)
  have td: "td_type hold_data2 = Debit"
    "td_relatedJobId hold_data2 = Some (ao_id (convertOrderToApp 6 order2 ''Lens'' ''Ti'' ''Lens''))"
    "td_userId hold_data2 = od_founderId order_data2"
    "td_amount hold_data2 = od_payout order_data2"
    by (simp_all add: hold_data2_def convertOrderToApp_def order2_def order_data2_def)
  from approval_is_three_separate_writes
         [OF store3_invariant one pend store3_approve approved3_createOrder od fresh_o fresh_t
             ordered3_hold td]
  have "\<not> escrow_invariant approved3 \<and> \<not> escrow_invariant ordered3 \<and> escrow_invariant held3"
    by simp
  with store3_invariant store3_approve approved3_createOrder ordered3_hold
  show ?thesis by (intro conjI) simp_all
qed

subsection \<open>The writes of a release\<close>

lemma createTransaction_credits:
  "\<not> isl (fst (createTransaction db td (Inr (ins, returned))))
   \<and> length (credits_of (snd (createTransaction db td (Inr (ins, returned)))) orderId) =
       length (credits_of db orderId)
         + (if td_type td = Credit \<and> td_relatedJobId td = Some orderId then 1 else 0)
   \<and> db_earnings (snd (createTransaction db td (Inr (ins, returned)))) = db_earnings db"
  by (simp add: createTransaction_def credits_of_def Let_def)

lemma createEarning_earnings:
  assumes "ed_paidAt ed \<noteq> Some InvalidDate"
  shows "\<not> isl (fst (createEarning db ed (Inr ins)))
   \<and> length (earnings_of (snd (createEarning db ed (Inr ins))) orderId) =
       length (earnings_of db orderId) + (if ed_orderId ed = orderId then 1 else 0)
   \<and> db_transactions (snd (createEarning db ed (Inr ins))) = db_transactions db"
proof (cases "ed_paidAt ed")
  case None
  then show ?thesis
    by (simp add: createEarning_def toISOString_def earnings_of_def Let_def)
next
  case (Some d)
  with assms obtain ts where "d = Date ts" by (cases d) simp_all
  with Some show ?thesis
    by (simp add: createEarning_def toISOString_def earnings_of_def Let_def)
qed

lemma createTransaction_appends:
  "\<exists>row. snd (createTransaction db td (Inr (ins, returned))) =
           db\<lparr> db_transactions := db_transactions db @ [row] \<rparr>"
  by (simp add: createTransaction_def Let_def) (rule exI, rule refl)

lemma createEarning_appends:
  assumes "ed_paidAt ed \<noteq> Some InvalidDate"
  shows "\<exists>row. snd (createEarning db ed (Inr ins)) =
           db\<lparr> db_earnings := db_earnings db @ [row] \<rparr>"
proof (cases "ed_paidAt ed")
  case None
  then show ?thesis
    by (simp add: createEarning_def toISOString_def Let_def) (rule exI, rule refl)
next
  case (Some d)
  with assms obtain ts where "d = Date ts" by (cases d) simp_all
  with Some show ?thesis
    by (simp add: createEarning_def toISOString_def Let_def) (rule exI, rule refl)
qed

lemma createTransaction_orders:
  "createTransaction (db\<lparr> db_orders := os \<rparr>) td reply =
     (fst (createTransaction db td reply),
      (snd (createTransaction db td reply))\<lparr> db_orders := os \<rparr>)"
  by (simp add: createTransaction_def Let_def split: sum.splits prod.splits)

lemma createEarning_orders:
  "createEarning (db\<lparr> db_orders := os \<rparr>) ed reply =
     (fst (createEarning db ed reply), (snd (createEarning db ed reply))\<lparr> db_orders := os \<rparr>)"
  by (simp add: createEarning_def Let_def split: sum.splits)

text \<open>
  C2, as stated, fails. The order \<open>o1\<close> is completed and its release (the credit
  and the earning) has been written once. Writing both a second time throws nothing, and
  the store then holds two credit transactions and two earnings for the order.
\<close>

theorem release_is_at_most_once_counterexample:
  "map o_status (db_orders store1) = [Completed]
   \<and> length (credits_of released_once ''o1'') = 1
   \<and> length (earnings_of released_once ''o1'') = 1
   \<and> \<not> isl (fst (createTransaction released_once credit_data1
                    (Inr (\<lparr> ins_id = ''x6'', ins_at = Some 11 \<rparr>, True))))
   \<and> \<not> isl (fst (createEarning
                    (snd (createTransaction released_once credit_data1
                            (Inr (\<lparr> ins_id = ''x6'', ins_at = Some 11 \<rparr>, True))))
                    earning_data1 (Inr \<lparr> ins_id = ''e2'', ins_at = Some 11 \<rparr>)))
   \<and> length (credits_of released_twice ''o1'') = 2
   \<and> length (earnings_of released_twice ''o1'') = 2"
  by (simp add: released_twice_def released_once_def createTransaction_def createEarning_def
      toISOString_def credits_of_def earnings_of_def Let_def credit_data1_def
      earning_data1_def store1_def empty_store_def order1_def)

text \<open>
  C2, amended. \<open>createTransaction\<close> and \<open>createEarning\<close> are unconditional appends:
  whenever the store accepts the insert, the call succeeds and the store holds exactly
  one more credit transaction, or one more earning, for the order than before, whether
  or not one existed already; the call changes the store only by appending one row to
  its table. A second call with the same data that the store accepts succeeds as well,
  and leaves two more credits, or two more earnings, for the order. Neither call reads
  the orders, so the order's status has no effect on it.
\<close>

theorem release_writes_append_unconditionally:
  "\<not> isl (fst (createTransaction db td (Inr (ins, returned))))
   \<and> length (credits_of (snd (createTransaction db td (Inr (ins, returned)))) orderId) =
       length (credits_of db orderId)
         + (if td_type td = Credit \<and> td_relatedJobId td = Some orderId then 1 else 0)
   \<and> (ed_paidAt ed \<noteq> Some InvalidDate \<longrightarrow>
        \<not> isl (fst (createEarning db ed (Inr ins')))
        \<and> length (earnings_of (snd (createEarning db ed (Inr ins'))) orderId) =
            length (earnings_of db orderId) + (if ed_orderId ed = orderId then 1 else 0))
   \<and> (\<exists>row. snd (createTransaction db td (Inr (ins, returned))) =
               db\<lparr> db_transactions := db_transactions db @ [row] \<rparr>)
   \<and> (ed_paidAt ed \<noteq> Some InvalidDate \<longrightarrow>
        (\<exists>row. snd (createEarning db ed (Inr ins')) =
                 db\<lparr> db_earnings := db_earnings db @ [row] \<rparr>))
   \<and> (td_type td = Credit \<and> td_relatedJobId td = Some orderId \<longrightarrow>
        \<not> isl (fst (createTransaction (snd (createTransaction db td (Inr (ins, returned))))
                      td (Inr (again, again_returned))))
        \<and> length (credits_of
              (snd (createTransaction (snd (createTransaction db td (Inr (ins, returned))))
                      td (Inr (again, again_returned)))) orderId) =
            length (credits_of db orderId) + 2)
   \<and> (ed_paidAt ed \<noteq> Some InvalidDate \<and> ed_orderId ed = orderId \<longrightarrow>
        \<not> isl (fst (createEarning (snd (createEarning db ed (Inr ins'))) ed (Inr again')))
        \<and> length (earnings_of
              (snd (createEarning (snd (createEarning db ed (Inr ins'))) ed (Inr again')))
              orderId) =
            length (earnings_of db orderId) + 2)
   \<and> createTransaction (db\<lparr> db_orders := os \<rparr>) td reply =
       (fst (createTransaction db td reply),
        (snd (createTransaction db td reply))\<lparr> db_orders := os \<rparr>)
   \<and> createEarning (db\<lparr> db_orders := os \<rparr>) ed reply' =
       (fst (createEarning db ed reply'),
        (snd (createEarning db ed reply'))\<lparr> db_orders := os \<rparr>)"
proof -
  have t1: "\<not> isl (fst (createTransaction db td (Inr (ins, returned))))
     \<and> length (credits_of (snd (createTransaction db td (Inr (ins, returned)))) orderId) =
       length (credits_of db orderId)
         + (if td_type td = Credit \<and> td_relatedJobId td = Some orderId then 1 else 0)"
    using createTransaction_credits [where db = db and td = td and ins = ins
        and returned = returned and orderId = orderId]
    by simp
  have t2: "\<not> isl (fst (createTransaction (snd (createTransaction db td (Inr (ins, returned))))
                      td (Inr (again, again_returned))))
     \<and> length (credits_of
              (snd (createTransaction (snd (createTransaction db td (Inr (ins, returned))))
                      td (Inr (again, again_returned)))) orderId) =
         length (credits_of (snd (createTransaction db td (Inr (ins, returned)))) orderId)
           + (if td_type td = Credit \<and> td_relatedJobId td = Some orderId then 1 else 0)"
    using createTransaction_credits
        [where db = "snd (createTransaction db td (Inr (ins, returned)))" and td = td
          and ins = again and returned = again_returned and orderId = orderId]
    by simp
  have e1: "ed_paidAt ed \<noteq> Some InvalidDate \<Longrightarrow>
        \<not> isl (fst (createEarning db ed (Inr ins')))
        \<and> length (earnings_of (snd (createEarning db ed (Inr ins'))) orderId) =
            length (earnings_of db orderId) + (if ed_orderId ed = orderId then 1 else 0)"
    using createEarning_earnings [where ed = ed and db = db and ins = ins'
        and orderId = orderId]
    by simp
  have e2: "ed_paidAt ed \<noteq> Some InvalidDate \<Longrightarrow>
        \<not> isl (fst (createEarning (snd (createEarning db ed (Inr ins'))) ed (Inr again')))
        \<and> length (earnings_of
              (snd (createEarning (snd (createEarning db ed (Inr ins'))) ed (Inr again')))
              orderId) =
            length (earnings_of (snd (createEarning db ed (Inr ins'))) orderId)
              + (if ed_orderId ed = orderId then 1 else 0)"
    using createEarning_earnings [where ed = ed
        and db = "snd (createEarning db ed (Inr ins'))" and ins = again'
        and orderId = orderId]
    by simp
  have f1: "createTransaction (db\<lparr> db_orders := os \<rparr>) td reply =
       (fst (createTransaction db td reply),
        (snd (createTransaction db td reply))\<lparr> db_orders := os \<rparr>)"
    by (rule createTransaction_orders)
  have f2: "createEarning (db\<lparr> db_orders := os \<rparr>) ed reply' =
       (fst (createEarning db ed reply'),
        (snd (createEarning db ed reply'))\<lparr> db_orders := os \<rparr>)"
    by (rule createEarning_orders)
  have c3: "ed_paidAt ed \<noteq> Some InvalidDate \<longrightarrow>
        \<not> isl (fst (createEarning db ed (Inr ins')))
        \<and> length (earnings_of (snd (createEarning db ed (Inr ins'))) orderId) =
            length (earnings_of db orderId) + (if ed_orderId ed = orderId then 1 else 0)"
    using e1 by blast
  have c4: "td_type td = Credit \<and> td_relatedJobId td = Some orderId \<longrightarrow>
        \<not> isl (fst (createTransaction (snd (createTransaction db td (Inr (ins, returned))))
                      td (Inr (again, again_returned))))
        \<and> length (credits_of
              (snd (createTransaction (snd (createTransaction db td (Inr (ins, returned))))
                      td (Inr (again, again_returned)))) orderId) =
            length (credits_of db orderId) + 2"
    using t1 t2 by simp
  have c5: "ed_paidAt ed \<noteq> Some InvalidDate \<and> ed_orderId ed = orderId \<longrightarrow>
        \<not> isl (fst (createEarning (snd (createEarning db ed (Inr ins'))) ed (Inr again')))
        \<and> length (earnings_of
              (snd (createEarning (snd (createEarning db ed (Inr ins'))) ed (Inr again')))
              orderId) =
            length (earnings_of db orderId) + 2"
    using e1 e2 by simp
  have a1: "\<exists>row. snd (createTransaction db td (Inr (ins, returned))) =
               db\<lparr> db_transactions := db_transactions db @ [row] \<rparr>"
    by (rule createTransaction_appends)
  have a2: "ed_paidAt ed \<noteq> Some InvalidDate \<longrightarrow>
        (\<exists>row. snd (createEarning db ed (Inr ins')) =
                 db\<lparr> db_earnings := db_earnings db @ [row] \<rparr>)"
    using createEarning_appends [where ed = ed and db = db and ins = ins'] by blast
  have t1a: "\<not> isl (fst (createTransaction db td (Inr (ins, returned))))"
    and t1b: "length (credits_of (snd (createTransaction db td (Inr (ins, returned)))) orderId) =
       length (credits_of db orderId)
         + (if td_type td = Credit \<and> td_relatedJobId td = Some orderId then 1 else 0)"
    using t1 by simp_all
  from t1a t1b c3 a1 a2 c4 c5 f1 f2 show ?thesis by (intro conjI)
qed

theorem release_writes_append_unconditionally_witness:
  "ed_paidAt earning_data1 \<noteq> Some InvalidDate
   \<and> length (credits_of released_once ''o1'') = 1
   \<and> length (credits_of
        (snd (createTransaction released_once credit_data1
                (Inr (\<lparr> ins_id = ''x6'', ins_at = Some 11 \<rparr>, True)))) ''o1'') = 2
   \<and> length (earnings_of released_once ''o1'') = 1
   \<and> length (earnings_of
        (snd (createEarning released_once earning_data1
                (Inr \<lparr> ins_id = ''e2'', ins_at = Some 11 \<rparr>))) ''o1'') = 2"
proof -
  have 1: "ed_paidAt earning_data1 \<noteq> Some InvalidDate"
    and 2: "td_type credit_data1 = Credit \<and> td_relatedJobId credit_data1 = Some ''o1''"
    and 3: "ed_orderId earning_data1 = ''o1''"
    by (simp_all add: earning_data1_def credit_data1_def)
  have 4: "length (credits_of released_once ''o1'') = 1
           \<and> length (earnings_of released_once ''o1'') = 1"
    by (simp add: released_once_def createTransaction_def createEarning_def
        toISOString_def credits_of_def earnings_of_def Let_def credit_data1_def
        earning_data1_def store1_def empty_store_def)
  from release_writes_append_unconditionally
         [where db = released_once and td = credit_data1 and ed = earning_data1
            and orderId = "''o1''" and ins = "\<lparr> ins_id = ''x6'', ins_at = Some 11 \<rparr>"
            and returned = True and ins' = "\<lparr> ins_id = ''e2'', ins_at = Some 11 \<rparr>"
            and again = "\<lparr> ins_id = ''x7'', ins_at = Some 12 \<rparr>" and again_returned = True
            and again' = "\<lparr> ins_id = ''e3'', ins_at = Some 12 \<rparr>"
            and os = "[]" and reply = "Inl (StoreError [])" and reply' = "Inl (StoreError [])"]
       1 2 3 4
  show ?thesis by simp
qed

subsection \<open>Approval and the founder's funds\<close>

lemma updateApplicationStatus_frame:
  "updateApplicationStatus
      (db\<lparr> db_transactions := txs, db_campaigns := cs, db_profiles := ps \<rparr>) c t d e =
     (fst (updateApplicationStatus db c t d e),
      (snd (updateApplicationStatus db c t d e))
        \<lparr> db_transactions := txs, db_campaigns := cs, db_profiles := ps \<rparr>)"
  by (simp add: updateApplicationStatus_def Let_def split: option.splits list.splits)

lemma updateApplicationStatus_single:
  assumes "filter (\<lambda>a. a_campaign_id a = c \<and> a_talent_id a = t)
             (db_campaign_applications db) = [a]"
  shows "updateApplicationStatus db c t d None =
           (Inr (a\<lparr> a_status := decided d \<rparr>),
            db\<lparr> db_campaign_applications :=
                   map (\<lambda>x. if a_campaign_id x = c \<and> a_talent_id x = t
                             then x\<lparr> a_status := decided d \<rparr> else x)
                     (db_campaign_applications db) \<rparr>)"
  using assms by (simp add: updateApplicationStatus_def Let_def)

lemma updateApplicationStatus_error:
  assumes "fst (updateApplicationStatus db c t d e) = Inl err"
  shows "(\<exists>se. err = Thrown se) \<and> snd (updateApplicationStatus db c t d e) = db"
  using assms
  by (simp add: updateApplicationStatus_def Let_def split: option.splits list.splits) auto

text \<open>
  C3, as stated, fails. The founder's ledger balance is 50 and the campaign's price is
  100; \<open>updateApplicationStatus\<close> approves the pending application all the same.
\<close>

theorem approval_checks_funds_counterexample:
  "ledger_balance (map convertTransaction (db_transactions store3)) (c_founder_id campaign1) = 50
   \<and> number_or_zero (c_price campaign1) = 100
   \<and> db_campaigns store3 = [campaign1]
   \<and> db_campaign_applications store3 = [application1]
   \<and> a_status application1 = Pending
   \<and> updateApplicationStatus store3 ''c1'' ''t1'' ToApproved None =
       (Inr (application1\<lparr> a_status := Approved \<rparr>),
        store3\<lparr> db_campaign_applications := [application1\<lparr> a_status := Approved \<rparr>] \<rparr>)"
  by (simp add: updateApplicationStatus_def Let_def store3_def empty_store_def
      application1_def campaign1_def topup_def ledger_balance_def amount_of_def
      convertTransaction_def number_or_zero_def)

text \<open>
  C3, amended. \<open>updateApplicationStatus\<close> makes no check of funds: its result does not
  depend on the transactions, the campaigns or the profiles. Whenever exactly one
  application exists for the campaign and the talent and the store reports no error, it
  sets that application's status as asked; the only errors it throws are the store's, and
  then the store is unchanged.
\<close>

theorem updateApplicationStatus_checks_no_funds:
  "updateApplicationStatus
      (db\<lparr> db_transactions := txs, db_campaigns := cs, db_profiles := ps \<rparr>) c t d e =
     (fst (updateApplicationStatus db c t d e),
      (snd (updateApplicationStatus db c t d e))
        \<lparr> db_transactions := txs, db_campaigns := cs, db_profiles := ps \<rparr>)
   \<and> (\<forall>a. filter (\<lambda>a. a_campaign_id a = c \<and> a_talent_id a = t)
               (db_campaign_applications db) = [a] \<longrightarrow>
          updateApplicationStatus db c t d None =
            (Inr (a\<lparr> a_status := decided d \<rparr>),
             db\<lparr> db_campaign_applications :=
                    map (\<lambda>x. if a_campaign_id x = c \<and> a_talent_id x = t
                              then x\<lparr> a_status := decided d \<rparr> else x)
                      (db_campaign_applications db) \<rparr>))
   \<and> (\<forall>err. fst (updateApplicationStatus db c t d e) = Inl err \<longrightarrow>
          (\<exists>se. err = Thrown se) \<and> snd (updateApplicationStatus db c t d e) = db)"
proof (intro conjI)
  show "updateApplicationStatus
      (db\<lparr> db_transactions := txs, db_campaigns := cs, db_profiles := ps \<rparr>) c t d e =
     (fst (updateApplicationStatus db c t d e),
      (snd (updateApplicationStatus db c t d e))
        \<lparr> db_transactions := txs, db_campaigns := cs, db_profiles := ps \<rparr>)"
    by (rule updateApplicationStatus_frame)
  show "\<forall>a. filter (\<lambda>a. a_campaign_id a = c \<and> a_talent_id a = t)
               (db_campaign_applications db) = [a] \<longrightarrow>
          updateApplicationStatus db c t d None =
            (Inr (a\<lparr> a_status := decided d \<rparr>),
             db\<lparr> db_campaign_applications :=
                    map (\<lambda>x. if a_campaign_id x = c \<and> a_talent_id x = t
                              then x\<lparr> a_status := decided d \<rparr> else x)
                      (db_campaign_applications db) \<rparr>)"
    by (intro allI impI) (rule updateApplicationStatus_single)
  show "\<forall>err. fst (updateApplicationStatus db c t d e) = Inl err \<longrightarrow>
          (\<exists>se. err = Thrown se) \<and> snd (updateApplicationStatus db c t d e) = db"
    by (intro allI impI) (rule updateApplicationStatus_error)
qed

theorem updateApplicationStatus_checks_no_funds_witness:
  "filter (\<lambda>a. a_campaign_id a = ''c1'' \<and> a_talent_id a = ''t1'')
      (db_campaign_applications store3) = [application1]
   \<and> updateApplicationStatus store3 ''c1'' ''t1'' ToApproved None =
       (Inr (application1\<lparr> a_status := Approved \<rparr>),
        store3\<lparr> db_campaign_applications := [application1\<lparr> a_status := Approved \<rparr>] \<rparr>)
   \<and> updateApplicationStatus store3 ''c1'' ''t9'' ToApproved None =
       (Inl (Thrown single_row_error), store3)"
proof -
  have 1: "filter (\<lambda>a. a_campaign_id a = ''c1'' \<and> a_talent_id a = ''t1'')
      (db_campaign_applications store3) = [application1]"
    by (simp add: store3_def empty_store_def application1_def)
  have 2: "updateApplicationStatus store3 ''c1'' ''t9'' ToApproved None =
       (Inl (Thrown single_row_error), store3)"
    by (simp add: updateApplicationStatus_def Let_def store3_def empty_store_def
        application1_def)
  have 3: "a_campaign_id application1 = ''c1'' \<and> a_talent_id application1 = ''t1''"
    by (simp add: application1_def)
  from updateApplicationStatus_checks_no_funds
         [where db = store3 and txs = "db_transactions store3"
            and cs = "db_campaigns store3" and ps = "db_profiles store3"
            and c = "''c1''" and t = "''t1''" and d = ToApproved and e = None]
       updateApplicationStatus_checks_no_funds
         [where db = store3 and txs = "db_transactions store3"
            and cs = "db_campaigns store3" and ps = "db_profiles store3"
            and c = "''c1''" and t = "''t9''" and d = ToApproved and e = None]
       1 2 3
  show ?thesis
    by (simp add: store3_def empty_store_def)
qed

subsection \<open>The balance the client shows\<close>

text \<open>
  C4, as stated, fails. The founder \<open>f1\<close> has a top-up of 150 and a hold of 100 in the
  ledger, so the signed sum of the transactions is 50; the balance the client exposes is
  the stored profile field, 100.
\<close>

theorem balance_is_signed_sum_counterexample:
  "walletBalance (convertProfileToUser founder1) = Some 100
   \<and> map at_userId (map convertTransaction [topup, hold1]) = [p_id founder1, p_id founder1]
   \<and> ledger_balance (map convertTransaction [topup, hold1]) (p_id founder1) = 50"
  by (simp add: convertProfileToUser_def founder1_def number_or_zero_def ledger_balance_def
      amount_of_def convertTransaction_def topup_def hold1_def)

text \<open>
  C4, amended. The balance the client exposes for a founder is the profile's stored
  \<open>wallet_balance\<close>, 0 when it is null: \<open>convertProfileToUser\<close> computes it from the
  profile row alone, without reading the transactions. A user who is not a founder is
  given no balance.
\<close>

theorem walletBalance_is_stored_field:
  "(p_role profile = Founder \<longrightarrow>
      walletBalance (convertProfileToUser profile) =
        Some (case p_wallet_balance profile of None \<Rightarrow> 0 | Some v \<Rightarrow> v))
   \<and> (p_role profile \<noteq> Founder \<longrightarrow> walletBalance (convertProfileToUser profile) = None)"
  by (simp add: convertProfileToUser_def number_or_zero_def)

theorem walletBalance_is_stored_field_witness:
  "p_role founder1 = Founder
   \<and> p_wallet_balance founder1 = Some 100
   \<and> walletBalance (convertProfileToUser founder1) = Some 100
   \<and> p_role talent1 = Talent
   \<and> walletBalance (convertProfileToUser talent1) = None"
  using walletBalance_is_stored_field [of founder1] walletBalance_is_stored_field [of talent1]
  by (simp add: founder1_def talent1_def)

subsection \<open>The status of an order\<close>

lemma updateOrder_single:
  assumes "filter (\<lambda>r. o_id r = oid) (db_orders db) = [row]"
    and "embed_campaign db (apply_updates u sent_at row) = Some campaign"
    and "embed_profile db (apply_updates u sent_at row) = Some profile"
  shows "updateOrder db oid u sent_at now None =
           (Inr (convertOrderToApp now (apply_updates u sent_at row) (c_title campaign)
                   (p_name profile) (c_product_name campaign)),
            db\<lparr> db_orders := map (\<lambda>r. if o_id r = oid then apply_updates u sent_at r else r)
                                (db_orders db) \<rparr>)"
  using assms
  by (simp add: updateOrder_def with_campaign_def convert_embedded_def Let_def
      List.map_filter_simps)

lemma apply_updates_columns:
  "apply_updates u sent_at row =
     \<lparr> o_id = (case up_id u of None \<Rightarrow> o_id row | Some v \<Rightarrow> v),
       o_campaign_id = (case up_campaign_id u of None \<Rightarrow> o_campaign_id row | Some v \<Rightarrow> v),
       o_talent_id = (case up_talent_id u of None \<Rightarrow> o_talent_id row | Some v \<Rightarrow> v),
       o_founder_id = (case up_founder_id u of None \<Rightarrow> o_founder_id row | Some v \<Rightarrow> v),
       o_status = (case up_status u of None \<Rightarrow> o_status row | Some v \<Rightarrow> v),
       o_payout = (case up_payout u of None \<Rightarrow> o_payout row | Some v \<Rightarrow> v),
       o_created_at = (case up_created_at u of None \<Rightarrow> o_created_at row | Some v \<Rightarrow> v),
       o_updated_at = Some sent_at,
       o_delivery_address =
         (case up_delivery_address u of None \<Rightarrow> o_delivery_address row | Some v \<Rightarrow> v),
       o_tracking_number =
         (case up_tracking_number u of None \<Rightarrow> o_tracking_number row | Some v \<Rightarrow> v),
       o_courier = (case up_courier u of None \<Rightarrow> o_courier row | Some v \<Rightarrow> v),
       o_review_media =
         (case up_review_media u of
            None \<Rightarrow> o_review_media row
          | Some JNull \<Rightarrow> o_review_media row
          | Some (JArray items) \<Rightarrow> JArray items
          | Some (JOther b) \<Rightarrow> if b then JOther b else o_review_media row),
       o_review_submitted_at =
         (case up_review_submitted_at u of
            None \<Rightarrow> o_review_submitted_at row | Some v \<Rightarrow> v) \<rparr>"
  by (simp add: apply_updates_def patch_def split: option.splits review_media_json.splits)

text \<open>
  C5, as stated, fails. \<open>updateOrder\<close> moves a completed order back to pending
  shipment, and moves an order that waits for shipment straight to completed; neither
  call is refused.
\<close>

theorem updateOrder_enforces_transitions_counterexample:
  "o_status order1 = Completed
   \<and> updateOrder store1 ''o1'' (no_updates\<lparr> up_status := Some PendingShipment \<rparr>) 12 13 None =
       (Inr (convertOrderToApp 13 (order1\<lparr> o_status := PendingShipment, o_updated_at := Some 12 \<rparr>)
               ''Lens'' ''Ti'' ''Lens''),
        store1\<lparr> db_orders := [order1\<lparr> o_status := PendingShipment, o_updated_at := Some 12 \<rparr>] \<rparr>)
   \<and> o_status order0 = PendingShipment
   \<and> updateOrder (store1\<lparr> db_orders := [order0] \<rparr>) ''o1''
        (no_updates\<lparr> up_status := Some Completed \<rparr>) 12 13 None =
       (Inr (convertOrderToApp 13 (order0\<lparr> o_status := Completed, o_updated_at := Some 12 \<rparr>)
               ''Lens'' ''Ti'' ''Lens''),
        store1\<lparr> db_orders := [order0\<lparr> o_status := Completed, o_updated_at := Some 12 \<rparr>] \<rparr>)"
  by (simp add: updateOrder_def with_campaign_def convert_embedded_def Let_def
      List.map_filter_simps embed_campaign_def embed_profile_def apply_updates_def patch_def
      no_updates_def store1_def empty_store_def order1_def order0_def campaign1_def
      founder1_def talent1_def)

text \<open>
  C5, amended. \<open>updateOrder\<close> validates no transition. When exactly one order has the
  given id, the campaign and the talent profile of the updated order exist and the store
  reports no error, the call succeeds whatever the order's current status. It writes
  every supplied column over the order's, with two exceptions: \<open>updated_at\<close> is always
  set to the time the request was built, also when one is supplied, and \<open>review_media\<close>
  is written only when the supplied value is truthy. A supplied status becomes the
  order's status, and without one the status is kept. The order returned is the written
  row, converted at the time of the reply.
\<close>

theorem updateOrder_writes_any_status:
  assumes "filter (\<lambda>r. o_id r = oid) (db_orders db) = [row]"
    and "embed_campaign db (apply_updates u sent_at row) = Some campaign"
    and "embed_profile db (apply_updates u sent_at row) = Some profile"
  shows "updateOrder db oid u sent_at now None =
           (Inr (convertOrderToApp now (apply_updates u sent_at row) (c_title campaign)
                   (p_name profile) (c_product_name campaign)),
            db\<lparr> db_orders := map (\<lambda>r. if o_id r = oid then apply_updates u sent_at r else r)
                                (db_orders db) \<rparr>)
         \<and> apply_updates u sent_at row =
             \<lparr> o_id = (case up_id u of None \<Rightarrow> o_id row | Some v \<Rightarrow> v),
               o_campaign_id =
                 (case up_campaign_id u of None \<Rightarrow> o_campaign_id row | Some v \<Rightarrow> v),
               o_talent_id = (case up_talent_id u of None \<Rightarrow> o_talent_id row | Some v \<Rightarrow> v),
               o_founder_id =
                 (case up_founder_id u of None \<Rightarrow> o_founder_id row | Some v \<Rightarrow> v),
               o_status = (case up_status u of None \<Rightarrow> o_status row | Some v \<Rightarrow> v),
               o_payout = (case up_payout u of None \<Rightarrow> o_payout row | Some v \<Rightarrow> v),
               o_created_at =
                 (case up_created_at u of None \<Rightarrow> o_created_at row | Some v \<Rightarrow> v),
               o_updated_at = Some sent_at,
               o_delivery_address =
                 (case up_delivery_address u of
                    None \<Rightarrow> o_delivery_address row | Some v \<Rightarrow> v),
               o_tracking_number =
                 (case up_tracking_number u of
                    None \<Rightarrow> o_tracking_number row | Some v \<Rightarrow> v),
               o_courier = (case up_courier u of None \<Rightarrow> o_courier row | Some v \<Rightarrow> v),
               o_review_media =
                 (case up_review_media u of
                    None \<Rightarrow> o_review_media row
                  | Some JNull \<Rightarrow> o_review_media row
                  | Some (JArray items) \<Rightarrow> JArray items
                  | Some (JOther b) \<Rightarrow> if b then JOther b else o_review_media row),
               o_review_submitted_at =
                 (case up_review_submitted_at u of
                    None \<Rightarrow> o_review_submitted_at row | Some v \<Rightarrow> v) \<rparr>
         \<and> ao_status (convertOrderToApp now (apply_updates u sent_at row) (c_title campaign)
                        (p_name profile) (c_product_name campaign)) =
             (case up_status u of None \<Rightarrow> o_status row | Some s \<Rightarrow> s)"
proof (intro conjI)
  show "updateOrder db oid u sent_at now None =
           (Inr (convertOrderToApp now (apply_updates u sent_at row) (c_title campaign)
                   (p_name profile) (c_product_name campaign)),
            db\<lparr> db_orders := map (\<lambda>r. if o_id r = oid then apply_updates u sent_at r else r)
                                (db_orders db) \<rparr>)"
    using assms by (rule updateOrder_single)
  show "apply_updates u sent_at row =
             \<lparr> o_id = (case up_id u of None \<Rightarrow> o_id row | Some v \<Rightarrow> v),
               o_campaign_id =
                 (case up_campaign_id u of None \<Rightarrow> o_campaign_id row | Some v \<Rightarrow> v),
               o_talent_id = (case up_talent_id u of None \<Rightarrow> o_talent_id row | Some v \<Rightarrow> v),
               o_founder_id =
                 (case up_founder_id u of None \<Rightarrow> o_founder_id row | Some v \<Rightarrow> v),
               o_status = (case up_status u of None \<Rightarrow> o_status row | Some v \<Rightarrow> v),
               o_payout = (case up_payout u of None \<Rightarrow> o_payout row | Some v \<Rightarrow> v),
               o_created_at =
                 (case up_created_at u of None \<Rightarrow> o_created_at row | Some v \<Rightarrow> v),
               o_updated_at = Some sent_at,
               o_delivery_address =
                 (case up_delivery_address u of
                    None \<Rightarrow> o_delivery_address row | Some v \<Rightarrow> v),
               o_tracking_number =
                 (case up_tracking_number u of
                    None \<Rightarrow> o_tracking_number row | Some v \<Rightarrow> v),
               o_courier = (case up_courier u of None \<Rightarrow> o_courier row | Some v \<Rightarrow> v),
               o_review_media =
                 (case up_review_media u of
                    None \<Rightarrow> o_review_media row
                  | Some JNull \<Rightarrow> o_review_media row
                  | Some (JArray items) \<Rightarrow> JArray items
                  | Some (JOther b) \<Rightarrow> if b then JOther b else o_review_media row),
               o_review_submitted_at =
                 (case up_review_submitted_at u of
                    None \<Rightarrow> o_review_submitted_at row | Some v \<Rightarrow> v) \<rparr>"
    by (rule apply_updates_columns)
  show "ao_status (convertOrderToApp now (apply_updates u sent_at row) (c_title campaign)
                        (p_name profile) (c_product_name campaign)) =
             (case up_status u of None \<Rightarrow> o_status row | Some s \<Rightarrow> s)"
    by (simp add: convertOrderToApp_def apply_updates_def patch_def)
qed

theorem updateOrder_writes_any_status_witness:
  "filter (\<lambda>r. o_id r = ''o1'') (db_orders store1) = [order1]
   \<and> o_status order1 = Completed
   \<and> map o_status
        (db_orders (snd (updateOrder store1 ''o1''
                           (no_updates\<lparr> up_status := Some Shipped \<rparr>) 12 13 None))) = [Shipped]
   \<and> map o_updated_at
        (db_orders (snd (updateOrder store1 ''o1''
                           (no_updates\<lparr> up_status := Some Shipped,
                                        up_updated_at := Some (Some 3) \<rparr>) 12 13 None))) =
       [Some 12]
   \<and> map_sum id ao_status
        (fst (updateOrder store1 ''o1'' (no_updates\<lparr> up_status := Some Shipped \<rparr>) 12 13 None)) =
       Inr Shipped"
proof -
  have 1: "filter (\<lambda>r. o_id r = ''o1'') (db_orders store1) = [order1]"
    by (simp add: store1_def empty_store_def order1_def)
  have 2: "embed_campaign store1 (apply_updates u 12 order1) = Some campaign1"
    if "up_campaign_id u = None" for u
    using that
    by (simp add: embed_campaign_def apply_updates_def patch_def store1_def
        empty_store_def order1_def campaign1_def)
  have 3: "embed_profile store1 (apply_updates u 12 order1) = Some talent1"
    if "up_talent_id u = None" for u
    using that
    by (simp add: embed_profile_def apply_updates_def patch_def store1_def
        empty_store_def order1_def founder1_def talent1_def)
  have 4: "o_id order1 = ''o1'' \<and> o_status order1 = Completed"
    by (simp add: order1_def)
  have a: "up_campaign_id (no_updates\<lparr> up_status := Some Shipped \<rparr>) = None"
    "up_talent_id (no_updates\<lparr> up_status := Some Shipped \<rparr>) = None"
    "up_campaign_id (no_updates\<lparr> up_status := Some Shipped,
                                 up_updated_at := Some (Some 3) \<rparr>) = None"
    "up_talent_id (no_updates\<lparr> up_status := Some Shipped,
                               up_updated_at := Some (Some 3) \<rparr>) = None"
    by (simp_all add: no_updates_def)
  from updateOrder_writes_any_status [OF 1 2 [OF a(1)] 3 [OF a(2)], of 13]
       updateOrder_writes_any_status [OF 1 2 [OF a(3)] 3 [OF a(4)], of 13]
       1 4
  show ?thesis
    by (simp add: store1_def empty_store_def no_updates_def order1_def convertOrderToApp_def)
qed

subsection \<open>Applying to a campaign\<close>

lemma applyCampaign_duplicate_iff:
  "(fst (applyCampaign db c t None ins) =
      Inl (Error ''You have already applied to this campaign.'')) =
   (\<exists>a \<in> set (db_campaign_applications db). a_campaign_id a = c \<and> a_talent_id a = t)"
  by (simp add: applyCampaign_def Let_def filter_empty_conv split: sum.splits)

lemma applyCampaign_campaigns:
  "applyCampaign (db\<lparr> db_campaigns := cs \<rparr>) c t se ins =
     (fst (applyCampaign db c t se ins),
      (snd (applyCampaign db c t se ins))\<lparr> db_campaigns := cs \<rparr>)"
  by (simp add: applyCampaign_def Let_def split: sum.splits option.splits)

lemma applyCampaign_success:
  assumes "applyCampaign db c t se ins = (Inr row, db')"
  shows "a_status row = Pending \<and> a_campaign_id row = c \<and> a_talent_id row = t
         \<and> db' = db\<lparr> db_campaign_applications := db_campaign_applications db @ [row] \<rparr>"
proof (cases ins)
  case (Inl e)
  with assms show ?thesis
    by (simp add: applyCampaign_def Let_def split: if_splits)
next
  case (Inr new_id)
  with assms show ?thesis
    by (clarsimp simp: applyCampaign_def Let_def split: if_splits)
qed

text \<open>
  C6, as stated, fails twice. A talent whose application was rejected cannot apply
  again: the call throws the duplicate error. And an application to a paused campaign
  succeeds.
\<close>

theorem applyCampaign_duplicate_and_active_counterexample:
  "applyCampaign (store1\<lparr> db_campaign_applications := [application1\<lparr> a_status := Rejected \<rparr>] \<rparr>)
      ''c1'' ''t1'' None (Inr ''ap2'') =
     (Inl (Error ''You have already applied to this campaign.''),
      store1\<lparr> db_campaign_applications := [application1\<lparr> a_status := Rejected \<rparr>] \<rparr>)
   \<and> map c_status (db_campaigns (store1\<lparr> db_campaigns := [campaign1\<lparr> c_status := Paused \<rparr>] \<rparr>))
       = [Paused]
   \<and> applyCampaign (store1\<lparr> db_campaigns := [campaign1\<lparr> c_status := Paused \<rparr>] \<rparr>)
        ''c1'' ''t1'' None (Inr ''ap1'') =
       (Inr application1,
        store1\<lparr> db_campaigns := [campaign1\<lparr> c_status := Paused \<rparr>],
                db_campaign_applications := [application1] \<rparr>)"
  by (simp add: applyCampaign_def Let_def store1_def empty_store_def application1_def)

text \<open>
  C6, amended. When its lookup succeeds, \<open>applyCampaign\<close> throws the duplicate error
  exactly when some application, of whatever status, already exists for the campaign and
  the talent: a rejected application blocks a new one. It never reads the campaign, so
  the campaign's status has no effect on it. On success it creates one application, in
  status pending, for that campaign and talent.
\<close>

theorem applyCampaign_duplicate_iff_any_application:
  "((fst (applyCampaign db c t None ins) =
       Inl (Error ''You have already applied to this campaign.'')) =
    (\<exists>a \<in> set (db_campaign_applications db). a_campaign_id a = c \<and> a_talent_id a = t))
   \<and> applyCampaign (db\<lparr> db_campaigns := cs \<rparr>) c t se ins =
       (fst (applyCampaign db c t se ins),
        (snd (applyCampaign db c t se ins))\<lparr> db_campaigns := cs \<rparr>)
   \<and> (\<forall>row db'. applyCampaign db c t se ins = (Inr row, db') \<longrightarrow>
         a_status row = Pending \<and> a_campaign_id row = c \<and> a_talent_id row = t
         \<and> db' = db\<lparr> db_campaign_applications := db_campaign_applications db @ [row] \<rparr>)"
proof (intro conjI)
  show "(fst (applyCampaign db c t None ins) =
       Inl (Error ''You have already applied to this campaign.'')) =
    (\<exists>a \<in> set (db_campaign_applications db). a_campaign_id a = c \<and> a_talent_id a = t)"
    by (rule applyCampaign_duplicate_iff)
  show "applyCampaign (db\<lparr> db_campaigns := cs \<rparr>) c t se ins =
       (fst (applyCampaign db c t se ins),
        (snd (applyCampaign db c t se ins))\<lparr> db_campaigns := cs \<rparr>)"
    by (rule applyCampaign_campaigns)
  show "\<forall>row db'. applyCampaign db c t se ins = (Inr row, db') \<longrightarrow>
         a_status row = Pending \<and> a_campaign_id row = c \<and> a_talent_id row = t
         \<and> db' = db\<lparr> db_campaign_applications := db_campaign_applications db @ [row] \<rparr>"
    by (intro allI impI) (rule applyCampaign_success)
qed

theorem applyCampaign_duplicate_iff_any_application_witness:
  "applyCampaign store1 ''c1'' ''t1'' None (Inr ''ap1'') =
     (Inr application1, store1\<lparr> db_campaign_applications := [application1] \<rparr>)
   \<and> a_status application1 = Pending
   \<and> fst (applyCampaign (store1\<lparr> db_campaign_applications := [application1] \<rparr>)
            ''c1'' ''t1'' None (Inr ''ap2'')) =
       Inl (Error ''You have already applied to this campaign.'')"
proof -
  have 1: "applyCampaign store1 ''c1'' ''t1'' None (Inr ''ap1'') =
     (Inr application1, store1\<lparr> db_campaign_applications := [application1] \<rparr>)"
    by (simp add: applyCampaign_def Let_def store1_def empty_store_def application1_def)
  have 2: "a_campaign_id application1 = ''c1'' \<and> a_talent_id application1 = ''t1''"
    by (simp add: application1_def)
  from applyCampaign_duplicate_iff_any_application
         [of "store1\<lparr> db_campaign_applications := [application1] \<rparr>" "''c1''" "''t1''"
             "Inr ''ap2''" "[]" None]
       applyCampaign_duplicate_iff_any_application
         [of store1 "''c1''" "''t1''" "Inr ''ap1''" "[]" None]
       1 2
  show ?thesis by (simp add: application1_def)
qed

subsection \<open>Order notifications\<close>

text \<open>
  C7, as stated, fails. Two notifications for the order \<open>o1\<close> arrive, the newer one
  (timestamp 20, status shipped) before the older one (timestamp 10). While the backend
  cannot be reached neither is applied: the mirror keeps its old snapshot, not the one of
  the newer notification. And once the mirror holds a snapshot updated at 30, the
  notification of timestamp 10 still replaces the mirror's orders by whatever the fetch
  returns.
\<close>

theorem sync_is_last_writer_wins_counterexample:
  "o_id (oc_new change_T1) = o_id (oc_new change_T2)
   \<and> oc_commit_timestamp change_T2 < oc_commit_timestamp change_T1
   \<and> map ao_status
         (orders (on_order_change env_down (convertProfileToUser founder1) change_T2
                   (on_order_change env_down (convertProfileToUser founder1) change_T1 mirror0)))
       = [PendingShipment]
   \<and> o_status (oc_new change_T1) = Shipped
   \<and> map ao_updatedAt
         (orders (on_order_change env_up (convertProfileToUser founder1) change_T1 mirror0))
       = [Some (Date 30)]
   \<and> orders (on_order_change env_down (convertProfileToUser founder1) change_T2
                (on_order_change env_up (convertProfileToUser founder1) change_T1 mirror0))
       \<noteq> [shown (oc_new change_T1)]
   \<and> map ao_status
         (orders (on_order_change (env_up\<lparr> getOrders := (\<lambda>u. Fulfilled [shown order1]) \<rparr>)
                   (convertProfileToUser founder1) change_T2
                   (on_order_change env_up (convertProfileToUser founder1) change_T1 mirror0)))
       = [Completed]"
  by (simp add: on_order_change_def example_defs convertOrderToApp_def
      convertProfileToUser_def baseUser_def date_if_present_def)

text \<open>
  C7, amended. The handler of an order notification never reads the notification: it
  fetches the user's orders again, replaces the mirror's orders by the fetched list when
  the fetch is fulfilled and leaves the mirror as it is when the fetch is rejected. No
  timestamp is compared, so the result of handling two notifications does not depend on
  the order in which they arrive.
\<close>

theorem on_order_change_refetches:
  "on_order_change env user payload st = on_order_change env user payload' st
   \<and> (case getOrders env (own_scope user) of
         Fulfilled v \<Rightarrow> on_order_change env user payload st = st\<lparr> orders := v \<rparr>
       | RejectedWith reason \<Rightarrow> on_order_change env user payload st = st)
   \<and> on_order_change env2 user payload' (on_order_change env1 user payload st) =
       on_order_change env2 user payload (on_order_change env1 user payload' st)"
  by (simp add: on_order_change_def own_scope_def split: settled.splits)

subsection \<open>Deleting a review attachment: attempts and failures\<close>











subsection \<open>Refreshing the mirror\<close>

text \<open>
  C9. For a signed-in user, \<open>refreshData\<close> replaces every collection it fetches by the
  fetched list when the fetch is fulfilled and by the empty list when it is rejected,
  whatever the collection held before: the campaigns, orders, transactions, earnings and
  messages of every user, the founders and talents of an admin, and the talents of a
  founder.
\<close>

theorem refreshData_rejected_source_is_emptied:
  assumes "user = Some u"
  shows
    "(case getCampaigns env of
        Fulfilled v \<Rightarrow> campaigns (refreshData env user st) = v
      | RejectedWith reason \<Rightarrow> campaigns (refreshData env user st) = [])
     \<and> (case getOrders env (own_scope u) of
        Fulfilled v \<Rightarrow> orders (refreshData env user st) = v
      | RejectedWith reason \<Rightarrow> orders (refreshData env user st) = [])
     \<and> (case getTransactions env (own_scope u) of
        Fulfilled v \<Rightarrow> transactions (refreshData env user st) = v
      | RejectedWith reason \<Rightarrow> transactions (refreshData env user st) = [])
     \<and> (case getEarnings env (earnings_scope u) of
        Fulfilled v \<Rightarrow> earnings (refreshData env user st) = v
      | RejectedWith reason \<Rightarrow> earnings (refreshData env user st) = [])
     \<and> (case getMessages env None of
        Fulfilled v \<Rightarrow> messages (refreshData env user st) = v
      | RejectedWith reason \<Rightarrow> messages (refreshData env user st) = [])
     \<and> (u_role (user_base u) = Admin \<longrightarrow>
          (case getFounders env of
             Fulfilled v \<Rightarrow> founders (refreshData env user st) = v
           | RejectedWith reason \<Rightarrow> founders (refreshData env user st) = []))
     \<and> (u_role (user_base u) \<noteq> Talent \<longrightarrow>
          (case getTalents env of
             Fulfilled v \<Rightarrow> talents (refreshData env user st) = v
           | RejectedWith reason \<Rightarrow> talents (refreshData env user st) = []))"
proof -
  have c: "campaigns (refreshData env user st) = value_or_empty (getCampaigns env)"
    using assms by (simp add: refreshData_def)
  have o: "orders (refreshData env user st) = value_or_empty (getOrders env (own_scope u))"
    using assms by (simp add: refreshData_def own_scope_def)
  have t: "transactions (refreshData env user st) =
             value_or_empty (getTransactions env (own_scope u))"
    using assms by (simp add: refreshData_def own_scope_def)
  have e: "earnings (refreshData env user st) =
             value_or_empty (getEarnings env (earnings_scope u))"
    using assms by (cases "u_role (user_base u)") (simp_all add: refreshData_def earnings_scope_def)
  have m: "messages (refreshData env user st) = value_or_empty (getMessages env None)"
    using assms by (simp add: refreshData_def)
  have f: "u_role (user_base u) = Admin \<Longrightarrow>
             founders (refreshData env user st) = value_or_empty (getFounders env)"
    using assms by (simp add: refreshData_def)
  have l: "u_role (user_base u) \<noteq> Talent \<Longrightarrow>
             talents (refreshData env user st) = value_or_empty (getTalents env)"
    using assms by (cases "u_role (user_base u)") (simp_all add: refreshData_def)
  show ?thesis
    using f l
    by (simp add: c o t e m value_or_empty_def split: settled.splits)
qed

theorem refreshData_rejected_source_is_emptied_witness:
  "orders mirror0 = [shown order0]
   \<and> orders (refreshData env_down (Some (convertProfileToUser founder1)) mirror0) = []
   \<and> transactions (refreshData env_down (Some (convertProfileToUser founder1)) mirror0) = []
   \<and> campaigns (refreshData env_down (Some (convertProfileToUser founder1)) mirror0) = []
   \<and> transactions mirror0 \<noteq> []
   \<and> transactions (refreshData env_up (Some (convertProfileToUser admin1)) mirror0) = []
   \<and> orders (refreshData env_up (Some (convertProfileToUser admin1)) mirror0) =
        [shown (order0\<lparr> o_status := Delivered, o_updated_at := Some 30 \<rparr>)]
   \<and> founders (refreshData env_up (Some (convertProfileToUser admin1)) mirror0) =
        [convertProfileToUser founder1]"
  using
    refreshData_rejected_source_is_emptied
      [of "Some (convertProfileToUser founder1)" "convertProfileToUser founder1" env_down mirror0]
    refreshData_rejected_source_is_emptied
      [of "Some (convertProfileToUser admin1)" "convertProfileToUser admin1" env_up mirror0]
  by (simp add: env_down_def env_up_def mirror0_def convertProfileToUser_def baseUser_def
      founder1_def admin1_def own_scope_def earnings_scope_def)

subsection \<open>Review submissions and their media\<close>

lemma rebuild_item: "\<lparr>m_url = m_url item, m_type = m_type item\<rparr> = (item::media_item)"
  by (cases item) simp

lemma reviewSubmission_present_iff:
  "(ao_reviewSubmission (convertOrderToApp now row ct tn pn) \<noteq> None) =
     (\<exists>items. o_review_media row = JArray items \<and> items \<noteq> [])"
  by (simp add: convertOrderToApp_def split: review_media_json.splits)

lemma reviewSubmission_media:
  "ao_reviewSubmission (convertOrderToApp now row ct tn pn) = Some sub \<Longrightarrow>
     rs_media sub \<noteq> [] \<and> o_review_media row = JArray (rs_media sub)"
  by (auto simp: convertOrderToApp_def rebuild_item split: review_media_json.splits if_splits)

lemma try_success:
  assumes "deleteReviewMedia_try up db oid url se fe ue = (Inr ok, calls, db')"
  shows "se = None \<and> fe = None \<and> ue = None \<and> ok \<and>
         (\<exists>fp orderRow.
            filter (\<lambda>r. o_id r = oid) (db_orders db) = [orderRow]
            \<and> calls = [StorageRemove fp, SelectReviewMedia oid,
                        UpdateReviewMedia oid (written_media url (o_review_media orderRow))]
            \<and> db_orders db' =
                map (\<lambda>r. if o_id r = oid
                          then r\<lparr> o_review_media := written_media url (o_review_media orderRow) \<rparr>
                          else r)
                  (db_orders db))"
  using assms unfolding deleteReviewMedia_try_def Let_def
  by (simp split: sum.splits option.splits list.splits review_media_json.splits if_splits bool.splits) auto

lemma updated_rows_media:
  assumes "r \<in> set (map (\<lambda>r. if o_id r = oid then r\<lparr> o_review_media := w \<rparr> else r) rows)"
    and "o_id r = oid"
  shows "o_review_media r = w"
proof -
  from assms(1)
  have "r \<in> (\<lambda>r. if o_id r = oid then r\<lparr> o_review_media := w \<rparr> else r) ` set rows"
    by (simp only: set_map)
  then obtain r0 where
    r0: "r = (if o_id r0 = oid then r0\<lparr> o_review_media := w \<rparr> else r0)"
    by (rule imageE)
  show ?thesis
  proof (cases "o_id r0 = oid")
    case True
    with r0 have "r = r0\<lparr> o_review_media := w \<rparr>" by (simp only: if_True simp_thms)
    then show ?thesis by simp
  next
    case False
    with r0 have "r = r0" by (simp only: if_False simp_thms)
    with assms(2) False show ?thesis by simp
  qed
qed

lemma delete_success:
  assumes "deleteReviewMedia up db oid url se fe ue = (Inr ok, calls, db')"
  obtains fp orderRow where
    "filter (\<lambda>r. o_id r = oid) (db_orders db) = [orderRow]"
    "calls = [StorageRemove fp, SelectReviewMedia oid,
              UpdateReviewMedia oid (written_media url (o_review_media orderRow))]"
    "db_orders db' =
       map (\<lambda>r. if o_id r = oid
                 then r\<lparr> o_review_media := written_media url (o_review_media orderRow) \<rparr>
                 else r)
         (db_orders db)"
    "se = None" "fe = None" "ue = None" "ok"
proof -
  have t: "deleteReviewMedia_try up db oid url se fe ue = (Inr ok, calls, db')"
    using assms unfolding deleteReviewMedia_def
    by (cases "deleteReviewMedia_try up db oid url se fe ue") (simp split: sum.splits)
  have e: "\<exists>fp orderRow.
            filter (\<lambda>r. o_id r = oid) (db_orders db) = [orderRow]
            \<and> calls = [StorageRemove fp, SelectReviewMedia oid,
                        UpdateReviewMedia oid (written_media url (o_review_media orderRow))]
            \<and> db_orders db' =
                map (\<lambda>r. if o_id r = oid
                          then r\<lparr> o_review_media := written_media url (o_review_media orderRow) \<rparr>
                          else r)
                  (db_orders db)"
    and n: "se = None" "fe = None" "ue = None" "ok"
    using try_success [OF t] by simp_all
  from e show thesis
    apply (elim exE conjE)
    apply (rule that)
    apply (assumption | rule n)+
    done
qed

lemma written_media_not_empty_array: "written_media url stored \<noteq> JArray []"
  by (simp add: written_media_def)

lemma written_media_last:
  "filter (\<lambda>m. m_url m \<noteq> url) items = [] \<Longrightarrow> written_media url (JArray items) = JNull"
  by (simp add: written_media_def updatedMedia_def)

lemma filter_single_mem:
  assumes "filter P xs = [y]" and "x \<in> set xs" and "P x"
  shows "x = y"
proof -
  have "x \<in> set (filter P xs)" using assms(2,3) by simp
  then show ?thesis using assms(1) by simp
qed

text \<open>
  C10. The converted order has a review submission exactly when the stored
  \<open>review_media\<close> is a non-empty array, a review submission that is present never has
  zero media items, and a successful \<open>deleteReviewMedia\<close> never leaves an empty array in
  the order: when no item is left it writes null.
\<close>

theorem reviewSubmission_iff_nonempty_media:
  "((ao_reviewSubmission (convertOrderToApp now row ct tn pn) \<noteq> None) =
       (\<exists>items. o_review_media row = JArray items \<and> items \<noteq> []))
   \<and> (\<forall>sub. ao_reviewSubmission (convertOrderToApp now row ct tn pn) = Some sub \<longrightarrow>
          rs_media sub \<noteq> [])
   \<and> (\<forall>ok calls db'.
         deleteReviewMedia up db oid url se fe ue = (Inr ok, calls, db') \<longrightarrow>
           (\<forall>r \<in> set (db_orders db'). o_id r = oid \<longrightarrow> o_review_media r \<noteq> JArray [])
           \<and> (\<forall>orderRow items.
                 orderRow \<in> set (db_orders db) \<and> o_id orderRow = oid
                 \<and> o_review_media orderRow = JArray items
                 \<and> filter (\<lambda>m. m_url m \<noteq> url) items = [] \<longrightarrow>
                   UpdateReviewMedia oid JNull \<in> set calls
                   \<and> (\<forall>r \<in> set (db_orders db'). o_id r = oid \<longrightarrow> o_review_media r = JNull)))"
proof (intro conjI allI impI)
  show "(ao_reviewSubmission (convertOrderToApp now row ct tn pn) \<noteq> None) =
       (\<exists>items. o_review_media row = JArray items \<and> items \<noteq> [])"
    by (rule reviewSubmission_present_iff)
next
  fix sub
  assume "ao_reviewSubmission (convertOrderToApp now row ct tn pn) = Some sub"
  then show "rs_media sub \<noteq> []"
    by (simp add: reviewSubmission_media)
next
  fix ok calls db'
  assume run: "deleteReviewMedia up db oid url se fe ue = (Inr ok, calls, db')"
  show "\<forall>r \<in> set (db_orders db'). o_id r = oid \<longrightarrow> o_review_media r \<noteq> JArray []"
  proof (rule delete_success [OF run], intro ballI impI)
    fix fp orderRow r
    assume d: "db_orders db' =
           map (\<lambda>r. if o_id r = oid
                 then r\<lparr> o_review_media := written_media url (o_review_media orderRow) \<rparr>
                 else r)
             (db_orders db)"
      and r: "r \<in> set (db_orders db')" "o_id r = oid"
    have "o_review_media r = written_media url (o_review_media orderRow)"
      using r(1) unfolding d by (rule updated_rows_media) (rule r(2))
    then show "o_review_media r \<noteq> JArray []"
      by (simp add: written_media_not_empty_array)
  qed
next
  fix ok calls db' orderRow items
  assume run: "deleteReviewMedia up db oid url se fe ue = (Inr ok, calls, db')"
    and row: "orderRow \<in> set (db_orders db) \<and> o_id orderRow = oid
                 \<and> o_review_media orderRow = JArray items
                 \<and> filter (\<lambda>m. m_url m \<noteq> url) items = []"
  have both: "UpdateReviewMedia oid JNull \<in> set calls
          \<and> (\<forall>r \<in> set (db_orders db'). o_id r = oid \<longrightarrow> o_review_media r = JNull)"
  proof (rule delete_success [OF run])
    fix fp orderRow'
    assume one: "filter (\<lambda>r. o_id r = oid) (db_orders db) = [orderRow']"
      and c: "calls = [StorageRemove fp, SelectReviewMedia oid,
                    UpdateReviewMedia oid (written_media url (o_review_media orderRow'))]"
      and d: "db_orders db' =
                map (\<lambda>r. if o_id r = oid
                          then r\<lparr> o_review_media := written_media url (o_review_media orderRow') \<rparr>
                          else r)
                  (db_orders db)"
    have "orderRow = orderRow'"
      using filter_single_mem [OF one, of orderRow] row by simp
    with row have wn: "written_media url (o_review_media orderRow') = JNull"
      by (simp add: written_media_last)
    have 1: "UpdateReviewMedia oid JNull \<in> set calls" unfolding c wn by simp
    have 2: "\<forall>r \<in> set (db_orders db'). o_id r = oid \<longrightarrow> o_review_media r = JNull"
    proof (intro ballI impI)
      fix r assume r: "r \<in> set (db_orders db')" "o_id r = oid"
      show "o_review_media r = JNull"
        using r(1) unfolding d wn by (rule updated_rows_media) (rule r(2))
    qed
    from 1 2 show ?thesis by (rule conjI)
  qed
  from both show "UpdateReviewMedia oid JNull \<in> set calls"
    by (rule conjunct1)
  from both show "\<forall>r \<in> set (db_orders db'). o_id r = oid \<longrightarrow> o_review_media r = JNull"
    by (rule conjunct2)
qed

lemma store1_delete:
  "deleteReviewMedia pathname_after_host store1 ''o1''
      ''https://s.my/review-submissions/o1/a.png'' None None None =
    (Inr True,
     [StorageRemove ''o1/a.png'', SelectReviewMedia ''o1'', UpdateReviewMedia ''o1'' JNull],
     store1\<lparr> db_review_submissions := [],
             db_orders := [order1\<lparr> o_review_media := JNull \<rparr>] \<rparr>)"
  by (simp add: deleteReviewMedia_def deleteReviewMedia_try_def pathname_after_host_def
      store1_def empty_store_def order1_def Let_def
      written_media_def updatedMedia_def)

theorem reviewSubmission_iff_nonempty_media_witness:
  "ao_reviewSubmission (convertOrderToApp 0 order1 ''Lens'' ''Ti'' ''Lens'') \<noteq> None
   \<and> deleteReviewMedia pathname_after_host store1 ''o1''
        ''https://s.my/review-submissions/o1/a.png'' None None None =
      (Inr True,
       [StorageRemove ''o1/a.png'', SelectReviewMedia ''o1'', UpdateReviewMedia ''o1'' JNull],
       store1\<lparr> db_review_submissions := [],
               db_orders := [order1\<lparr> o_review_media := JNull \<rparr>] \<rparr>)
   \<and> o_review_media (order1\<lparr> o_review_media := JNull \<rparr>) \<noteq> JArray []
   \<and> ao_reviewSubmission
        (convertOrderToApp 0 (order1\<lparr> o_review_media := JNull \<rparr>) ''Lens'' ''Ti'' ''Lens'') = None"
  using reviewSubmission_iff_nonempty_media
    [of 0 order1 "''Lens''" "''Ti''" "''Lens''" pathname_after_host store1 "''o1''"
        "''https://s.my/review-submissions/o1/a.png''" None None None]
    store1_delete
  by (simp add: convertOrderToApp_def order1_def)

end
